theory Spec2Isabelle
  imports Complex_Main "HOL-Library.Char_ord" "HOL-Library.List_Lexorder"
begin

section \<open>The node cache of ironic-inspector (node\_cache.py)\<close>

text \<open>
  The cache is an SQLite database of three tables (\<open>_SCHEMA\<close>):
  \<^item> \<open>nodes (uuid text primary key, started_at real, finished_at real, error text)\<close>,
  \<^item> \<open>attributes (name text, value text, uuid text, primary key (name, value))\<close>,
  \<^item> \<open>options (uuid text, name text, value text, primary key (uuid, name))\<close>.

  A table is the list of its rows in insertion order, a nullable column is an \<open>option\<close>.
  Timestamps (\<open>time.time()\<close>, seconds since the epoch) are real numbers; every
  reading of the clock is a parameter of the function that reads it.
\<close>

subsection \<open>Python values and exceptions\<close>

text \<open>
  An attribute value is a string or a list of strings (\<open>isinstance(value, list)\<close>);
  a keyword argument may also be \<open>None\<close>, which is the \<open>None\<close> of \<open>option\<close>.
\<close>

datatype attr_value = Single string | Multi "string list"

type_synonym criteria = "(string \<times> attr_value option) list"

text \<open>Python truthiness (\<open>if not value\<close>): \<open>None\<close>, \<open>''\<close> and \<open>[]\<close> are false.\<close>

fun truthy :: "attr_value option \<Rightarrow> bool" where
  "truthy None = False"
| "truthy (Some (Single s)) = (s \<noteq> [])"
| "truthy (Some (Multi vs)) = (vs \<noteq> [])"

text \<open>\<open>if not isinstance(value, list): value = [value]\<close>\<close>

fun as_list :: "attr_value \<Rightarrow> string list" where
  "as_list (Single s) = [s]"
| "as_list (Multi vs) = vs"

text \<open>
  Option values are JSON documents (\<open>json.dumps\<close> on write, \<open>json.loads\<close> on read);
  the encoder and decoder are library code, inverse to each other on these values, so
  the \<open>value\<close> column holds the document itself. A Python tuple is encoded as an array.
\<close>

datatype json = JNull | JString string | JArray "json list"

text \<open>
  The exceptions of the two modules. The message of \<open>utils.Error\<close> is kept as the
  constructor with the arguments of its format string. \<open>isinstance_Error\<close> tells the
  instances of \<open>utils.Error\<close> (which \<open>except utils.Error\<close> catches) from the rest.
\<close>

datatype exn =
    NotFoundInCacheError criteria
      \<comment> \<open>\<open>utils.NotFoundInCacheError\<close>: Could not find a node for attributes ...\<close>
  | MultipleMatchingNodes criteria "string list"
      \<comment> \<open>Multiple matching nodes found for attributes ...: (found), code 404\<close>
  | NotInIntrospectionCache string
      \<comment> \<open>Could not find node ... in introspection cache, code 404\<close>
  | AlreadyFinished string real
      \<comment> \<open>Introspection for node ... already finished on (finish)\<close>
  | CouldNotFindNode string
      \<comment> \<open>Could not find node ... in cache, code 404\<close>
  | AlreadyOnIntrospection string "string list"
      \<comment> \<open>Some or all of (name)'s (value) are already on introspection\<close>
  | IpmiSetupDisabled
      \<comment> \<open>IPMI credentials setup is disabled in configuration\<close>
  | NotInMaintenance
      \<comment> \<open>Node should be in maintenance mode to set IPMI credentials on it\<close>
  | NoUserName string
      \<comment> \<open>neither new user name nor driver\_info[ipmi\_username] are provided\<close>
  | ForbiddenCharacters string "char list"
      \<comment> \<open>Forbidden characters encountered in new IPMI password for node ...\<close>
  | BadPasswordLength nat
      \<comment> \<open>IPMI password length should be > 0 and <= (max)\<close>
  | CannotFindNode string
      \<comment> \<open>Cannot find node ..., code 404\<close>
  | CannotGetNode string exn
      \<comment> \<open>Cannot get node ...: (exc)\<close>
  | FailedPowerValidation string string
      \<comment> \<open>Failed validation of power interface for node ..., reason: ...\<close>
  | FailedPowerOn string exn
      \<comment> \<open>Failed to power on node ..., check it's power management configuration: (exc)\<close>
  | OtherError string
      \<comment> \<open>a \<open>utils.Error\<close> raised by a collaborator outside these modules\<close>
  | IntegrityError
      \<comment> \<open>\<open>sqlite3.IntegrityError\<close>\<close>
  | ClientNotFound
      \<comment> \<open>\<open>ironicclient.exceptions.NotFound\<close>\<close>
  | ClientHttpError string
      \<comment> \<open>any other \<open>ironicclient.exceptions.HttpError\<close>\<close>
  | OtherException string
      \<comment> \<open>any other \<open>Exception\<close>\<close>

fun isinstance_Error :: "exn \<Rightarrow> bool" where
  "isinstance_Error IntegrityError = False"
| "isinstance_Error ClientNotFound = False"
| "isinstance_Error (ClientHttpError m) = False"
| "isinstance_Error (OtherException m) = False"
| "isinstance_Error e = True"

text \<open>
  The text stored in the \<open>error\<close> column: a literal, or \<open>str(exc)\<close> of an exception.
\<close>

datatype err_text = Literal string | Str exn

subsection \<open>The database\<close>

record node_row =
  n_uuid :: string
  n_started_at :: real
  n_finished_at :: "real option"
  n_error :: "err_text option"

record attr_row =
  a_name :: string
  a_value :: string
  a_uuid :: string

record opt_row =
  o_uuid :: string
  o_name :: string
  o_value :: json

record db =
  nodes :: "node_row list"
  attributes :: "attr_row list"
  options :: "opt_row list"

text \<open>The primary keys of the schema, which SQLite enforces on every insert.\<close>

definition primary_keys :: "db \<Rightarrow> bool" where
  "primary_keys d \<longleftrightarrow>
     distinct (map n_uuid (nodes d)) \<and>
     distinct (map (\<lambda>r. (a_name r, a_value r)) (attributes d)) \<and>
     distinct (map (\<lambda>r. (o_uuid r, o_name r)) (options d))"

text \<open>
  \<open>with _db() as db\<close>: the connection as a context manager commits when the block
  returns and rolls back when it raises. A block is a function from the database to its
  outcome and the database as the block left it.
\<close>

definition with_db :: "(db \<Rightarrow> (exn + 'a) \<times> db) \<Rightarrow> db \<Rightarrow> (exn + 'a) \<times> db" where
  "with_db block d =
     (case block d of
        (Inl e, d') \<Rightarrow> (Inl e, d)
      | (Inr v, d') \<Rightarrow> (Inr v, d'))"

text \<open>
  \<open>_maybe_db(database)\<close>: a transaction of its own when no connection is passed,
  the caller's connection (and the caller's transaction) otherwise.
\<close>

definition maybe_db :: "bool \<Rightarrow> (db \<Rightarrow> (exn + 'a) \<times> db) \<Rightarrow> db \<Rightarrow> (exn + 'a) \<times> db" where
  "maybe_db database block d = (if database then block d else with_db block d)"

text \<open>
  \<open>insert into attributes(name, value, uuid) values(?, ?, ?)\<close>: \<open>None\<close> is
  \<open>sqlite3.IntegrityError\<close>, raised when the primary key \<open>(name, value)\<close> is taken.
\<close>

definition insert_attribute :: "attr_row \<Rightarrow> db \<Rightarrow> db option" where
  "insert_attribute r d =
     (if (a_name r, a_value r) \<in> set (map (\<lambda>x. (a_name x, a_value x)) (attributes d))
      then None
      else Some (d\<lparr>attributes := attributes d @ [r]\<rparr>))"

text \<open>
  \<open>executemany\<close> runs the insert once per row and stops at the first failure; the
  rows inserted before it stay in the open transaction.
\<close>

fun executemany_insert :: "attr_row list \<Rightarrow> db \<Rightarrow> bool \<times> db" where
  "executemany_insert [] d = (True, d)"
| "executemany_insert (r # rs) d =
     (case insert_attribute r d of
        None \<Rightarrow> (False, d)
      | Some d' \<Rightarrow> executemany_insert rs d')"

definition insert_node :: "node_row \<Rightarrow> db \<Rightarrow> db option" where
  "insert_node r d =
     (if n_uuid r \<in> set (map n_uuid (nodes d)) then None
      else Some (d\<lparr>nodes := nodes d @ [r]\<rparr>))"

definition insert_option :: "opt_row \<Rightarrow> db \<Rightarrow> db option" where
  "insert_option r d =
     (if (o_uuid r, o_name r) \<in> set (map (\<lambda>x. (o_uuid x, o_name x)) (options d))
      then None
      else Some (d\<lparr>options := options d @ [r]\<rparr>))"

definition delete_node :: "string \<Rightarrow> db \<Rightarrow> db" where
  "delete_node u d = d\<lparr>nodes := filter (\<lambda>r. n_uuid r \<noteq> u) (nodes d)\<rparr>"

definition delete_attributes :: "string \<Rightarrow> db \<Rightarrow> db" where
  "delete_attributes u d = d\<lparr>attributes := filter (\<lambda>r. a_uuid r \<noteq> u) (attributes d)\<rparr>"

definition delete_options :: "string \<Rightarrow> db \<Rightarrow> db" where
  "delete_options u d = d\<lparr>options := filter (\<lambda>r. o_uuid r \<noteq> u) (options d)\<rparr>"

subsection \<open>NodeInfo\<close>

text \<open>
  The handle: the row's fields and the caches \<open>_options\<close> and \<open>_ports\<close>
  (\<open>None\<close> until loaded; of a port only its address, the key of the dict, is kept).
\<close>

record node_info =
  uuid :: string
  started_at :: real
  finished_at :: "real option"
  error :: "err_text option"
  options_cache :: "(string \<times> json) list option"
  ports_cache :: "string list option"

definition NodeInfo :: "string \<Rightarrow> real \<Rightarrow> node_info" where
  "NodeInfo u s =
     \<lparr>uuid = u, started_at = s, finished_at = None, error = None,
      options_cache = None, ports_cache = None\<rparr>"

text \<open>\<open>select name, value from options where uuid=?\<close>, as a dict.\<close>

definition select_options :: "string \<Rightarrow> db \<Rightarrow> (string \<times> json) list" where
  "select_options u d =
     map (\<lambda>r. (o_name r, o_value r)) (filter (\<lambda>r. o_uuid r = u) (options d))"

text \<open>The property \<open>options\<close>: loaded on first use, cached afterwards.\<close>

definition options_of :: "node_info \<Rightarrow> db \<Rightarrow> (string \<times> json) list \<times> node_info" where
  "options_of self d =
     (case options_cache self of
        None \<Rightarrow> (let loaded = select_options (uuid self) d
                 in (loaded, self\<lparr>options_cache := Some loaded\<rparr>))
      | Some cached \<Rightarrow> (cached, self))"

text \<open>\<open>dict[name] = value\<close>\<close>

fun dict_set :: "string \<Rightarrow> json \<Rightarrow> (string \<times> json) list \<Rightarrow> (string \<times> json) list" where
  "dict_set k v [] = [(k, v)]"
| "dict_set k v ((k', v') # kvs) =
     (if k' = k then (k, v) # kvs else (k', v') # dict_set k v kvs)"

definition set_option :: "node_info \<Rightarrow> string \<Rightarrow> json \<Rightarrow> db \<Rightarrow> (exn + node_info) \<times> db" where
  "set_option self name v d =
     (let (opts, self1) = options_of self d;
          self2 = self1\<lparr>options_cache := Some (dict_set name v opts)\<rparr>
      in with_db (\<lambda>d0.
           let d1 = d0\<lparr>options :=
                      filter (\<lambda>r. \<not> (o_uuid r = uuid self \<and> o_name r = name)) (options d0)\<rparr>
           in (case insert_option \<lparr>o_uuid = uuid self, o_name = name, o_value = v\<rparr> d1 of
                 None \<Rightarrow> (Inl IntegrityError, d1)
               | Some d2 \<Rightarrow> (Inr self2, d2))) d)"

text \<open>\<open>update nodes set finished_at=?, error=? where uuid=?\<close>\<close>

definition update_finished :: "string \<Rightarrow> real \<Rightarrow> err_text option \<Rightarrow> db \<Rightarrow> db" where
  "update_finished u t err d =
     d\<lparr>nodes := map (\<lambda>r. if n_uuid r = u then r\<lparr>n_finished_at := Some t, n_error := err\<rparr>
                           else r) (nodes d)\<rparr>"

text \<open>\<open>NodeInfo.finished(error)\<close>; \<open>now\<close> is \<open>time.time()\<close>.\<close>

definition finished :: "node_info \<Rightarrow> err_text option \<Rightarrow> real \<Rightarrow> db \<Rightarrow> node_info \<times> db" where
  "finished self err now d =
     (self\<lparr>finished_at := Some now, error := err\<rparr>,
      delete_options (uuid self) (delete_attributes (uuid self)
        (update_finished (uuid self) now err d)))"

text \<open>
  \<open>NodeInfo.add_attribute(name, value, database)\<close> for string values;
  \<open>database\<close> tells whether the caller passed its connection.
\<close>

definition add_attribute ::
  "node_info \<Rightarrow> string \<Rightarrow> attr_value \<Rightarrow> bool \<Rightarrow> db \<Rightarrow> (exn + unit) \<times> db" where
  "add_attribute self name v database d =
     (let vs = as_list v
      in maybe_db database (\<lambda>d0.
           (case executemany_insert
                   (map (\<lambda>x. \<lparr>a_name = name, a_value = x, a_uuid = uuid self\<rparr>) vs) d0 of
              (True, d1) \<Rightarrow> (Inr (), d1)
            | (False, d1) \<Rightarrow> (Inl (AlreadyOnIntrospection name vs), d1))) d)"

subsection \<open>The module's functions\<close>

text \<open>The loop of \<open>add_node\<close> over the keyword arguments; empty values are skipped.\<close>

fun add_attributes :: "node_info \<Rightarrow> criteria \<Rightarrow> db \<Rightarrow> (exn + unit) \<times> db" where
  "add_attributes self [] d = (Inr (), d)"
| "add_attributes self ((name, None) # rest) d = add_attributes self rest d"
| "add_attributes self ((name, Some v) # rest) d =
     (if \<not> truthy (Some v) then add_attributes self rest d
      else (case add_attribute self name v True d of
              (Inl e, d') \<Rightarrow> (Inl e, d')
            | (Inr u, d') \<Rightarrow> add_attributes self rest d'))"

text \<open>\<open>add_node(uuid, **attributes)\<close>; \<open>now\<close> is \<open>time.time()\<close>.\<close>

definition add_node :: "string \<Rightarrow> criteria \<Rightarrow> real \<Rightarrow> db \<Rightarrow> (exn + node_info) \<times> db" where
  "add_node u attrs now d =
     with_db (\<lambda>d0.
       let d1 = delete_options u (delete_attributes u (delete_node u d0))
       in (case insert_node
                  \<lparr>n_uuid = u, n_started_at = now, n_finished_at = None, n_error = None\<rparr> d1 of
             None \<Rightarrow> (Inl IntegrityError, d1)
           | Some d2 \<Rightarrow>
               (let node_info = NodeInfo u now
                in (case add_attributes node_info attrs d2 of
                      (Inl e, d3) \<Rightarrow> (Inl e, d3)
                    | (Inr x, d3) \<Rightarrow> (Inr node_info, d3))))) d"

text \<open>\<open>select * from nodes where uuid=?\<close>, \<open>fetchone()\<close>\<close>

definition select_node :: "string \<Rightarrow> db \<Rightarrow> node_row option" where
  "select_node u d = find (\<lambda>r. n_uuid r = u) (nodes d)"

definition from_row :: "node_row \<Rightarrow> node_info" where
  "from_row r =
     \<lparr>uuid = n_uuid r, started_at = n_started_at r, finished_at = n_finished_at r,
      error = n_error r, options_cache = None, ports_cache = None\<rparr>"

definition get_node :: "string \<Rightarrow> db \<Rightarrow> exn + node_info" where
  "get_node u d =
     (case select_node u d of
        None \<Rightarrow> Inl (CouldNotFindNode u)
      | Some r \<Rightarrow> Inr (from_row r))"

text \<open>
  \<open>select distinct uuid from attributes where name=? AND value=? OR ...\<close>, one
  disjunct for each of the values.
\<close>

definition select_uuids :: "string \<Rightarrow> string list \<Rightarrow> db \<Rightarrow> string list" where
  "select_uuids name vs d =
     remdups (map a_uuid
       (filter (\<lambda>r. a_name r = name \<and> a_value r \<in> set vs) (attributes d)))"

text \<open>
  The loop of \<open>find_node\<close>. \<open>found\<close> is a Python set: here a list without
  repetitions, whose order stands for the unspecified order of the set.
\<close>

fun find_loop :: "criteria \<Rightarrow> string list \<Rightarrow> db \<Rightarrow> string list" where
  "find_loop [] found d = found"
| "find_loop ((name, None) # rest) found d = find_loop rest found d"
| "find_loop ((name, Some v) # rest) found d =
     (if \<not> truthy (Some v) then find_loop rest found d
      else (let rows = select_uuids name (as_list v) d
            in find_loop rest
                 (if rows \<noteq> [] then remdups (found @ rows) else found) d))"

text \<open>
  \<open>find_node\<close>, called with keyword arguments. They are visited in the order of
  their names. \<open>if row['finished_at']\<close> is Python truthiness: false for NULL and
  for the timestamp 0.0.
\<close>

definition find_node :: "criteria \<Rightarrow> db \<Rightarrow> exn + node_info" where
  "find_node attrs d =
     (case find_loop (sort_key fst attrs) [] d of
        [] \<Rightarrow> Inl (NotFoundInCacheError attrs)
      | [u] \<Rightarrow>
          (case select_node u d of
             None \<Rightarrow> Inl (NotInIntrospectionCache u)
           | Some row \<Rightarrow>
               (case n_finished_at row of
                  None \<Rightarrow> Inr (NodeInfo u (n_started_at row))
                | Some f \<Rightarrow>
                    if f \<noteq> 0 then Inl (AlreadyFinished u f)
                    else Inr (NodeInfo u (n_started_at row))))
      | u # v # others \<Rightarrow> Inl (MultipleMatchingNodes attrs (u # v # others)))"

text \<open>\<open>active_macs()\<close>, with \<open>MACS_ATTRIBUTE = 'mac'\<close>\<close>

definition MACS_ATTRIBUTE :: string where
  "MACS_ATTRIBUTE = ''mac''"

definition active_macs :: "db \<Rightarrow> string set" where
  "active_macs d = set (map a_value (filter (\<lambda>r. a_name r = MACS_ATTRIBUTE) (attributes d)))"

text \<open>The configuration (\<open>CONF\<close>).\<close>

record config =
  node_status_keep_time :: real
  timeout :: real
  enable_setting_ipmi_credentials :: bool

text \<open>\<open>where finished_at < ?\<close>: a comparison with NULL is not true.\<close>

definition finished_before :: "real \<Rightarrow> node_row \<Rightarrow> bool" where
  "finished_before t r = (case n_finished_at r of None \<Rightarrow> False | Some f \<Rightarrow> f < t)"

text \<open>\<open>where started_at < ? and finished_at is null\<close>\<close>

definition timed_out :: "real \<Rightarrow> node_row \<Rightarrow> bool" where
  "timed_out t r \<longleftrightarrow> n_started_at r < t \<and> n_finished_at r = None"

text \<open>
  \<open>clean_up()\<close>. The three readings of the clock are \<open>now1\<close> (for the status
  threshold), \<open>now2\<close> (for the timeout threshold) and \<open>now3\<close> (the finish time).
\<close>

definition clean_up :: "config \<Rightarrow> real \<Rightarrow> real \<Rightarrow> real \<Rightarrow> db \<Rightarrow> string list \<times> db" where
  "clean_up conf now1 now2 now3 d =
     (let status_keep_threshold = now1 - node_status_keep_time conf;
          d1 = d\<lparr>nodes := filter (\<lambda>r. \<not> finished_before status_keep_threshold r) (nodes d)\<rparr>
      in if timeout conf \<le> 0 then ([], d1)
         else (let threshold = now2 - timeout conf;
                   uuids = map n_uuid (filter (timed_out threshold) (nodes d1))
               in if uuids = [] then ([], d1)
                  else (let d2 = d1\<lparr>nodes :=
                                   map (\<lambda>r. if timed_out threshold r
                                             then r\<lparr>n_finished_at := Some now3,
                                                    n_error := Some (Literal ''Introspection timeout'')\<rparr>
                                             else r) (nodes d1)\<rparr>;
                            d3 = fold delete_attributes uuids d2;
                            d4 = fold delete_options uuids d3
                        in (uuids, d4))))"

section \<open>Starting introspection (introspect.py)\<close>

subsection \<open>Collaborators\<close>

text \<open>
  Of the node that Ironic returns, the fields the module reads: \<open>uuid\<close>,
  \<open>maintenance\<close> and \<open>driver_info.get('ipmi_username')\<close>.
\<close>

record ironic_node =
  node_uuid :: string
  maintenance :: bool
  ipmi_username :: "string option"

text \<open>
  The Ironic client, the firewall and the helpers of \<open>utils\<close> are outside the two
  modules. Each call of one of them is a field holding its outcome: the exception it
  raises, or what it returns. \<open>retry_on_conflict(f, ...)\<close> is the outcome of the call
  after its retries.
\<close>

record collaborators =
  get_client :: "exn option"
  node_get :: "exn + ironic_node"
  check_provision_state :: "exn option"
  node_validate :: "exn + bool \<times> string"
    \<comment> \<open>\<open>validation.power['result']\<close> and \<open>validation.power['reason']\<close>\<close>
  get_ipmi_address :: "exn + string option"
  list_ports :: "exn + string list"
    \<comment> \<open>the addresses of the ports\<close>
  update_filters :: "exn option"
  set_boot_device :: "exn option"
  set_power_state :: "exn option"

text \<open>The log of the module: level and message, the message with its arguments.\<close>

datatype log_level = INFO | WARNING | EXCEPTION

datatype log_message =
    WhitelistingMacs "string list" string
  | FailedToSetBootDevice string exn
  | IntrospectionStarted string
  | ManualPowerOnRequired string real
  | UnexpectedException

type_synonym log = "(log_level \<times> log_message) list"

subsection \<open>Validation of new IPMI credentials\<close>

definition PASSWORD_ACCEPTED_CHARS :: "char set" where
  "PASSWORD_ACCEPTED_CHARS =
     set (''abcdefghijklmnopqrstuvwxyzABCDEFGHIJKLMNOPQRSTUVWXYZ'' @ ''0123456789'')"

definition PASSWORD_MAX_LENGTH :: nat where
  "PASSWORD_MAX_LENGTH = 20"

text \<open>\<open>if not new_username\<close>: \<open>None\<close> and the empty string are false.\<close>

fun provided :: "string option \<Rightarrow> bool" where
  "provided None = False"
| "provided (Some s) = (s \<noteq> [])"

definition validate_ipmi_credentials ::
  "config \<Rightarrow> ironic_node \<Rightarrow> string option \<times> string \<Rightarrow> exn + string \<times> string" where
  "validate_ipmi_credentials conf node new_ipmi_credentials =
     (if \<not> enable_setting_ipmi_credentials conf then Inl IpmiSetupDisabled
      else if \<not> maintenance node then Inl NotInMaintenance
      else (let (new_username0, new_password) = new_ipmi_credentials;
                new_username = (if \<not> provided new_username0 then ipmi_username node
                                else new_username0)
            in (case new_username of
                  None \<Rightarrow> Inl (NoUserName (node_uuid node))
                | Some name \<Rightarrow>
                    if name = [] then Inl (NoUserName (node_uuid node))
                    else (let wrong_chars =
                                remdups (filter (\<lambda>c. c \<notin> PASSWORD_ACCEPTED_CHARS) new_password)
                          in if wrong_chars \<noteq> []
                             then Inl (ForbiddenCharacters (node_uuid node) wrong_chars)
                             else if \<not> (0 < length new_password \<and>
                                         length new_password \<le> PASSWORD_MAX_LENGTH)
                             then Inl (BadPasswordLength PASSWORD_MAX_LENGTH)
                             else Inr (name, new_password)))))"

subsection \<open>The request\<close>

text \<open>The two \<open>except\<close> clauses around \<open>ironic.node.get(uuid)\<close>.\<close>

fun node_get_error :: "string \<Rightarrow> exn \<Rightarrow> exn" where
  "node_get_error u ClientNotFound = CannotFindNode u"
| "node_get_error u (ClientHttpError m) = CannotGetNode u (ClientHttpError m)"
| "node_get_error u e = e"

text \<open>
  The branch on \<open>new_ipmi_credentials\<close>: the validated credentials, or \<open>None\<close>
  after the validation of the power interface.
\<close>

definition check_credentials ::
  "config \<Rightarrow> collaborators \<Rightarrow> ironic_node \<Rightarrow> (string option \<times> string) option \<Rightarrow>
     exn + (string \<times> string) option" where
  "check_credentials conf ironic node new_ipmi_credentials =
     (case new_ipmi_credentials of
        Some creds \<Rightarrow>
          (case validate_ipmi_credentials conf node creds of
             Inl e \<Rightarrow> Inl e
           | Inr validated \<Rightarrow> Inr (Some validated))
      | None \<Rightarrow>
          (case node_validate ironic of
             Inl e \<Rightarrow> Inl e
           | Inr (result, reason) \<Rightarrow>
               if \<not> result then Inl (FailedPowerValidation (node_uuid node) reason)
               else Inr None))"

text \<open>\<open>json.dumps\<close> of the option \<open>new_ipmi_credentials\<close>: \<open>None\<close> or a pair.\<close>

fun credentials_json :: "(string \<times> string) option \<Rightarrow> json" where
  "credentials_json None = JNull"
| "credentials_json (Some (name, password)) = JArray [JString name, JString password]"

text \<open>
  \<open>introspect(uuid, new_ipmi_credentials, token)\<close> up to \<open>utils.spawn_n\<close>: the
  result is the \<open>node_info\<close> that the spawned \<open>_handle_exceptions\<close> closes over.
  \<open>now\<close> is the \<open>time.time()\<close> of \<open>add_node\<close>.
\<close>

definition introspect ::
  "config \<Rightarrow> collaborators \<Rightarrow> string \<Rightarrow> (string option \<times> string) option \<Rightarrow> real \<Rightarrow> db \<Rightarrow>
     (exn + node_info) \<times> db" where
  "introspect conf ironic u new_ipmi_credentials now d =
     (case get_client ironic of
        Some e \<Rightarrow> (Inl e, d)
      | None \<Rightarrow>
     (case node_get ironic of
        Inl e \<Rightarrow> (Inl (node_get_error u e), d)
      | Inr node \<Rightarrow>
     (case check_provision_state ironic of
        Some e \<Rightarrow> (Inl e, d)
      | None \<Rightarrow>
     (case check_credentials conf ironic node new_ipmi_credentials of
        Inl e \<Rightarrow> (Inl e, d)
      | Inr credentials \<Rightarrow>
     (case get_ipmi_address ironic of
        Inl e \<Rightarrow> (Inl e, d)
      | Inr bmc_address \<Rightarrow>
     (case add_node (node_uuid node) [(''bmc_address'', map_option Single bmc_address)] now d of
        (Inl e, d1) \<Rightarrow> (Inl e, d1)
      | (Inr node_info, d1) \<Rightarrow>
          set_option node_info ''new_ipmi_credentials'' (credentials_json credentials) d1))))))"

subsection \<open>The background task\<close>

text \<open>\<open>NodeInfo.ports(ironic)\<close>: the cached dict, keyed by address, or a fresh one.\<close>

definition ports :: "collaborators \<Rightarrow> node_info \<Rightarrow> (exn + string list) \<times> node_info" where
  "ports ironic self =
     (case ports_cache self of
        Some cached \<Rightarrow> (Inr cached, self)
      | None \<Rightarrow>
          (case list_ports ironic of
             Inl e \<Rightarrow> (Inl e, self)
           | Inr addresses \<Rightarrow>
               (let loaded = remdups addresses
                in (Inr loaded, self\<lparr>ports_cache := Some loaded\<rparr>))))"

text \<open>Truthiness of \<open>options.get(name)\<close>.\<close>

fun truthy_json :: "json option \<Rightarrow> bool" where
  "truthy_json None = False"
| "truthy_json (Some JNull) = False"
| "truthy_json (Some (JString s)) = (s \<noteq> [])"
| "truthy_json (Some (JArray xs)) = (xs \<noteq> [])"

text \<open>The first block of \<open>_background_introspect\<close>: \<open>if macs: ...\<close>\<close>

definition whitelist_macs ::
  "collaborators \<Rightarrow> node_info \<Rightarrow> string list \<Rightarrow> db \<Rightarrow> (exn + unit) \<times> log \<times> db" where
  "whitelist_macs ironic node_info macs d =
     (if macs \<noteq> [] then
        (case add_attribute node_info MACS_ATTRIBUTE (Multi macs) False d of
           (Inl e, d1) \<Rightarrow> (Inl e, [], d1)
         | (Inr u, d1) \<Rightarrow>
             (let lg = [(INFO, WhitelistingMacs macs (uuid node_info))]
              in (case update_filters ironic of
                    Some e \<Rightarrow> (Inl e, lg, d1)
                  | None \<Rightarrow> (Inr (), lg, d1))))
      else (Inr (), [], d))"

text \<open>The second block: \<open>if not node_info.options.get('new_ipmi_credentials'): ...\<close>\<close>

definition power_on ::
  "config \<Rightarrow> collaborators \<Rightarrow> node_info \<Rightarrow> db \<Rightarrow> (exn + unit) \<times> node_info \<times> log" where
  "power_on conf ironic node_info d =
     (let (opts, self) = options_of node_info d
      in if \<not> truthy_json (map_of opts ''new_ipmi_credentials'') then
           (let lg = (case set_boot_device ironic of
                        Some e \<Rightarrow> [(WARNING, FailedToSetBootDevice (uuid self) e)]
                      | None \<Rightarrow> [])
            in (case set_power_state ironic of
                  Some e \<Rightarrow> (Inl (FailedPowerOn (uuid self) e), self, lg)
                | None \<Rightarrow> (Inr (), self, lg @ [(INFO, IntrospectionStarted (uuid self))])))
         else (Inr (), self, [(INFO, ManualPowerOnRequired (uuid self) (timeout conf))]))"

definition background_introspect ::
  "config \<Rightarrow> collaborators \<Rightarrow> node_info \<Rightarrow> db \<Rightarrow> (exn + unit) \<times> node_info \<times> log \<times> db" where
  "background_introspect conf ironic node_info d =
     (case ports ironic node_info of
        (Inl e, self) \<Rightarrow> (Inl e, self, [], d)
      | (Inr macs, self) \<Rightarrow>
          (case whitelist_macs ironic self macs d of
             (Inl e, lg, d1) \<Rightarrow> (Inl e, self, lg, d1)
           | (Inr u, lg, d1) \<Rightarrow>
               (case power_on conf ironic self d1 of
                  (r, self', lg') \<Rightarrow> (r, self', lg @ lg', d1))))"

text \<open>
  \<open>_handle_exceptions\<close>, the closure that \<open>introspect\<close> spawns. The first component
  of the result is the exception that leaves the closure, if any; \<open>now\<close> is the
  \<open>time.time()\<close> of \<open>finished\<close>.
\<close>

definition handle_exceptions ::
  "config \<Rightarrow> collaborators \<Rightarrow> node_info \<Rightarrow> real \<Rightarrow> db \<Rightarrow> exn option \<times> node_info \<times> log \<times> db" where
  "handle_exceptions conf ironic node_info now d =
     (case background_introspect conf ironic node_info d of
        (Inr u, self, lg, d1) \<Rightarrow> (None, self, lg, d1)
      | (Inl exc, self, lg, d1) \<Rightarrow>
          if isinstance_Error exc then
            (let (self', d2) = finished self (Some (Str exc)) now d1
             in (None, self', lg, d2))
          else
            (let msg = ''Unexpected exception in background introspection thread'';
                 (self', d2) = finished self (Some (Literal msg)) now d1
             in (None, self', lg @ [(EXCEPTION, UnexpectedException)], d2)))"

section \<open>Auxiliary notions and example states\<close>

text \<open>The primary key of a row of \<open>attributes\<close>.\<close>

definition attr_key :: "attr_row \<Rightarrow> string \<times> string" where
  "attr_key r = (a_name r, a_value r)"

text \<open>The row that the sweep writes for a timed out node.\<close>

definition time_out_row :: "real \<Rightarrow> node_row \<Rightarrow> node_row" where
  "time_out_row t r =
     r\<lparr>n_finished_at := Some t, n_error := Some (Literal ''Introspection timeout'')\<rparr>"

text \<open>
  A configuration and a cache with two nodes on introspection and one finished node,
  and the same cache after a sweep at time 100 that finishes at 101.
\<close>

definition example_conf :: config where
  "example_conf =
     \<lparr>node_status_keep_time = 50, timeout = 60, enable_setting_ipmi_credentials = True\<rparr>"

definition example_db :: db where
  "example_db =
     \<lparr>nodes = [\<lparr>n_uuid = ''n1'', n_started_at = 10, n_finished_at = None, n_error = None\<rparr>,
               \<lparr>n_uuid = ''n2'', n_started_at = 90, n_finished_at = None, n_error = None\<rparr>,
               \<lparr>n_uuid = ''n3'', n_started_at = 1, n_finished_at = Some 5, n_error = None\<rparr>],
      attributes = [\<lparr>a_name = ''mac'', a_value = ''aa'', a_uuid = ''n1''\<rparr>,
                    \<lparr>a_name = ''mac'', a_value = ''bb'', a_uuid = ''n2''\<rparr>],
      options = [\<lparr>o_uuid = ''n1'', o_name = ''new_ipmi_credentials'', o_value = JNull\<rparr>]\<rparr>"

definition swept_db :: db where
  "swept_db =
     \<lparr>nodes = [\<lparr>n_uuid = ''n1'', n_started_at = 10, n_finished_at = Some 101,
                 n_error = Some (Literal ''Introspection timeout'')\<rparr>,
               \<lparr>n_uuid = ''n2'', n_started_at = 90, n_finished_at = None, n_error = None\<rparr>],
      attributes = [\<lparr>a_name = ''mac'', a_value = ''bb'', a_uuid = ''n2''\<rparr>],
      options = []\<rparr>"

text \<open>
  The candidate set of \<open>find_node\<close> in the words of the specification: for every
  pair of the criteria with a non-empty value, the uuids of the attribute rows that
  match the name and one of the listed values, united over all pairs.
\<close>

definition matching_uuids :: "string \<Rightarrow> string list \<Rightarrow> db \<Rightarrow> string set" where
  "matching_uuids name vs d =
     set (map a_uuid (filter (\<lambda>r. a_name r = name \<and> a_value r \<in> set vs) (attributes d)))"

definition candidate_ids :: "criteria \<Rightarrow> db \<Rightarrow> string set" where
  "candidate_ids attrs d =
     (\<Union>(name, value) \<in> set attrs.
        case value of
          None \<Rightarrow> {}
        | Some v \<Rightarrow> if truthy (Some v) then matching_uuids name (as_list v) d else {})"

text \<open>
  The attribute rows that \<open>add_node\<close> attaches: one for each value of each
  initial attribute with a non-empty value. Rows are insertable when their keys are
  pairwise different and none of them is in the table.
\<close>

definition initial_rows :: "string \<Rightarrow> criteria \<Rightarrow> attr_row list" where
  "initial_rows u attrs =
     concat (map (\<lambda>(name, value).
       case value of
         None \<Rightarrow> []
       | Some v \<Rightarrow> if truthy (Some v)
                   then map (\<lambda>x. \<lparr>a_name = name, a_value = x, a_uuid = u\<rparr>) (as_list v)
                   else []) attrs)"

definition insertable :: "attr_row list \<Rightarrow> db \<Rightarrow> bool" where
  "insertable rs d \<longleftrightarrow>
     distinct (map attr_key rs) \<and> set (map attr_key rs) \<inter> set (map attr_key (attributes d)) = {}"

text \<open>The error text that \<open>_handle_exceptions\<close> records for an exception.\<close>

definition error_text :: "exn \<Rightarrow> err_text" where
  "error_text exc =
     (if isinstance_Error exc then Str exc
      else Literal ''Unexpected exception in background introspection thread'')"

text \<open>
  A password of letters and digits only (\<open>PASSWORD_ACCEPTED_CHARS\<close>), of length
  1 to 20.
\<close>

definition acceptable_password :: "string \<Rightarrow> bool" where
  "acceptable_password p \<longleftrightarrow>
     set p \<subseteq> PASSWORD_ACCEPTED_CHARS \<and> 0 < length p \<and> length p \<le> 20"

text \<open>
  The empty cache; the cache after node \<open>n1\<close> was added at 10, finished at 20 and
  given an attribute afterwards; and that cache after a sweep at 100 has dropped the
  row of \<open>n1\<close>.
\<close>

definition empty_db :: db where
  "empty_db = \<lparr>nodes = [], attributes = [], options = []\<rparr>"

definition orphan_db :: db where
  "orphan_db =
     \<lparr>nodes = [], attributes = [\<lparr>a_name = ''mac'', a_value = ''aa'', a_uuid = ''n1''\<rparr>],
      options = []\<rparr>"

definition late_db :: db where
  "late_db =
     \<lparr>nodes = [\<lparr>n_uuid = ''n1'', n_started_at = 10, n_finished_at = Some 20, n_error = None\<rparr>],
      attributes = [\<lparr>a_name = ''mac'', a_value = ''aa'', a_uuid = ''n1''\<rparr>],
      options = []\<rparr>"

text \<open>
  A node as Ironic returns it, and collaborators that all succeed: the node is
  \<open>n2\<close>, it has one port and a BMC address.
\<close>

definition example_node :: ironic_node where
  "example_node = \<lparr>node_uuid = ''n2'', maintenance = True, ipmi_username = Some ''admin''\<rparr>"

definition example_ironic :: collaborators where
  "example_ironic =
     \<lparr>get_client = None,
      node_get = Inr \<lparr>node_uuid = ''n2'', maintenance = True, ipmi_username = Some ''admin''\<rparr>,
      check_provision_state = None,
      node_validate = Inr (True, ''''),
      get_ipmi_address = Inr (Some ''10.0.0.2''),
      list_ports = Inr [''cc''],
      update_filters = None,
      set_boot_device = None,
      set_power_state = None\<rparr>"

section \<open>Properties of the node cache\<close>

subsection \<open>Inserting attributes\<close>

lemma executemany_insert_ok:
  "fst (executemany_insert rs d) \<longleftrightarrow>
     distinct (map attr_key rs) \<and> set (map attr_key rs) \<inter> set (map attr_key (attributes d)) = {}"
  by (induction rs arbitrary: d) (auto simp: insert_attribute_def attr_key_def)

lemma executemany_insert_result:
  "fst (executemany_insert rs d) \<Longrightarrow>
     snd (executemany_insert rs d) = d\<lparr>attributes := attributes d @ rs\<rparr>"
  by (induction rs arbitrary: d) (auto simp: insert_attribute_def split: if_splits)

lemma executemany_insert_others:
  "nodes (snd (executemany_insert rs d)) = nodes d \<and> options (snd (executemany_insert rs d)) = options d"
  by (induction rs arbitrary: d) (auto simp: insert_attribute_def split: if_splits)

lemma add_attribute_dup:
  assumes "\<exists>v \<in> set (as_list v0). (name, v) \<in> set (map attr_key (attributes d))"
  shows "add_attribute self name v0 False d = (Inl (AlreadyOnIntrospection name (as_list v0)), d)"
proof -
  let ?rs = "map (\<lambda>x. \<lparr>a_name = name, a_value = x, a_uuid = uuid self\<rparr>) (as_list v0)"
  have "\<not> fst (executemany_insert ?rs d)"
    using assms unfolding executemany_insert_ok by (auto simp: attr_key_def image_iff)
  then show ?thesis
    by (auto simp: add_attribute_def maybe_db_def with_db_def Let_def split: prod.splits bool.splits)
qed

subsection \<open>The sweep\<close>

lemma fold_delete_attributes:
  "fold delete_attributes us d = d\<lparr>attributes := filter (\<lambda>r. a_uuid r \<notin> set us) (attributes d)\<rparr>"
  by (induction us arbitrary: d) (auto simp: delete_attributes_def intro: filter_cong)

lemma fold_delete_options:
  "fold delete_options us d = d\<lparr>options := filter (\<lambda>r. o_uuid r \<notin> set us) (options d)\<rparr>"
  by (induction us arbitrary: d) (auto simp: delete_options_def intro: filter_cong)

lemma clean_up_eq:
  "clean_up conf now1 now2 now3 d =
    (let kept = filter (\<lambda>r. \<not> finished_before (now1 - node_status_keep_time conf) r) (nodes d) in
     if timeout conf \<le> 0 then ([], d\<lparr>nodes := kept\<rparr>)
     else (let us = map n_uuid (filter (timed_out (now2 - timeout conf)) kept) in
       (us, \<lparr>nodes = map (\<lambda>r. if timed_out (now2 - timeout conf) r then time_out_row now3 r else r) kept,
             attributes = filter (\<lambda>r. a_uuid r \<notin> set us) (attributes d),
             options = filter (\<lambda>r. o_uuid r \<notin> set us) (options d)\<rparr>)))"
proof (cases "timeout conf \<le> 0")
  case True
  then show ?thesis by (simp add: clean_up_def Let_def)
next
  case pos: False
  let ?kept = "filter (\<lambda>r. \<not> finished_before (now1 - node_status_keep_time conf) r) (nodes d)"
  show ?thesis
  proof (cases "filter (timed_out (now2 - timeout conf)) ?kept = []")
    case True
    then have "\<forall>r \<in> set ?kept. \<not> timed_out (now2 - timeout conf) r"
      unfolding filter_empty_conv by blast
    then have "map (\<lambda>r. if timed_out (now2 - timeout conf) r then time_out_row now3 r else r) ?kept = ?kept"
      by (intro map_idI) auto
    then have rhs: "(let kept = ?kept in
       if timeout conf \<le> 0 then ([], d\<lparr>nodes := kept\<rparr>)
       else (let us = map n_uuid (filter (timed_out (now2 - timeout conf)) kept) in
         (us, \<lparr>nodes = map (\<lambda>r. if timed_out (now2 - timeout conf) r then time_out_row now3 r else r) kept,
             attributes = filter (\<lambda>r. a_uuid r \<notin> set us) (attributes d),
             options = filter (\<lambda>r. o_uuid r \<notin> set us) (options d)\<rparr>))) = ([], d\<lparr>nodes := ?kept\<rparr>)"
      using pos by (simp only: Let_def True if_False list.map list.set empty_iff not_False_eq_True filter_True) simp
    have "clean_up conf now1 now2 now3 d = ([], d\<lparr>nodes := ?kept\<rparr>)"
      using pos True by (simp add: clean_up_def Let_def)
    with rhs show ?thesis by simp
  next
    case False
    with pos show ?thesis
      by (simp add: clean_up_def Let_def fold_delete_attributes fold_delete_options time_out_row_def)
  qed
qed

lemma find_unique:
  "distinct (map f xs) \<Longrightarrow> r \<in> set xs \<Longrightarrow> find (\<lambda>x. f x = f r) xs = Some r"
  by (induction xs) (auto simp: image_iff)

lemma find_absent:
  "(\<forall>x \<in> set xs. f x \<noteq> u) \<Longrightarrow> find (\<lambda>x. f x = u) xs = None"
  by (simp add: find_None_iff)

lemma distinct_uuid_eq:
  "distinct (map f xs) \<Longrightarrow> x \<in> set xs \<Longrightarrow> y \<in> set xs \<Longrightarrow> f x = f y \<Longrightarrow> x = y"
  by (meson distinct_map inj_onD)

lemma clean_up_fst:
  "fst (clean_up conf now1 now2 now3 d) =
     (if timeout conf \<le> 0 then []
      else map n_uuid (filter (timed_out (now2 - timeout conf))
             (filter (\<lambda>r. \<not> finished_before (now1 - node_status_keep_time conf) r) (nodes d))))"
  by (simp add: clean_up_eq Let_def)

lemma clean_up_nodes:
  "nodes (snd (clean_up conf now1 now2 now3 d)) =
     map (\<lambda>r. if 0 < timeout conf \<and> timed_out (now2 - timeout conf) r
               then time_out_row now3 r else r)
       (filter (\<lambda>r. \<not> finished_before (now1 - node_status_keep_time conf) r) (nodes d))"
  by (simp add: clean_up_eq Let_def)

lemma timed_out_not_expired: "timed_out t r \<Longrightarrow> \<not> finished_before t' r"
  by (simp add: timed_out_def finished_before_def)

lemma ex_clean: "clean_up example_conf 100 100 101 example_db = ([''n1''], swept_db)"
  by (simp add: clean_up_def example_conf_def example_db_def swept_db_def Let_def
      finished_before_def timed_out_def delete_attributes_def delete_options_def)

text \<open>
  Claim C4. On a cache whose node uuids are distinct (the primary key), \<open>clean_up\<close>
  (a) deletes every node row whose \<open>finished_at\<close> is older than the status keep time;
  (b) with a positive timeout it returns the uuids of the rows with no \<open>finished_at\<close>
  and \<open>started_at\<close> older than the timeout, and each such row afterwards has
  \<open>finished_at\<close> set to the finish time and \<open>error\<close> set to "Introspection
  timeout", and no attribute or option row of it is left; with a timeout that is not
  positive it returns the empty list and leaves attributes and options alone. Every
  other row is unchanged, and so are the attributes and options of the other nodes.
\<close>

theorem clean_up_sweep:
  assumes pk: "distinct (map n_uuid (nodes d))"
      and res: "clean_up conf now1 now2 now3 d = (uuids, d')"
  shows "(\<forall>r \<in> set (nodes d).
            finished_before (now1 - node_status_keep_time conf) r \<longrightarrow>
              select_node (n_uuid r) d' = None) \<and>
         (0 < timeout conf \<longrightarrow>
            uuids = map n_uuid (filter (timed_out (now2 - timeout conf)) (nodes d)) \<and>
            (\<forall>r \<in> set (nodes d). timed_out (now2 - timeout conf) r \<longrightarrow>
               select_node (n_uuid r) d' =
                 Some (r\<lparr>n_finished_at := Some now3,
                         n_error := Some (Literal ''Introspection timeout'')\<rparr>) \<and>
               n_uuid r \<in> set uuids \<and>
               (\<forall>a \<in> set (attributes d'). a_uuid a \<noteq> n_uuid r) \<and>
               (\<forall>x \<in> set (options d'). o_uuid x \<noteq> n_uuid r))) \<and>
         (timeout conf \<le> 0 \<longrightarrow>
            uuids = [] \<and> attributes d' = attributes d \<and> options d' = options d) \<and>
         (\<forall>r \<in> set (nodes d).
            \<not> finished_before (now1 - node_status_keep_time conf) r \<and>
            \<not> (0 < timeout conf \<and> timed_out (now2 - timeout conf) r) \<longrightarrow>
              select_node (n_uuid r) d' = Some r) \<and>
         attributes d' = filter (\<lambda>a. a_uuid a \<notin> set uuids) (attributes d) \<and>
         options d' = filter (\<lambda>x. o_uuid x \<notin> set uuids) (options d)"
proof -
  let ?exp = "finished_before (now1 - node_status_keep_time conf)"
  let ?to = "timed_out (now2 - timeout conf)"
  let ?kept = "filter (\<lambda>r. \<not> ?exp r) (nodes d)"
  let ?upd = "\<lambda>r. if 0 < timeout conf \<and> ?to r then time_out_row now3 r else r"
  have us: "uuids = (if timeout conf \<le> 0 then [] else map n_uuid (filter ?to (nodes d)))"
  proof -
    have "filter ?to ?kept = filter ?to (nodes d)"
      by (auto simp: timed_out_not_expired intro: filter_cong)
    with res show ?thesis by (auto simp: clean_up_eq Let_def split: if_splits)
  qed
  have nd: "nodes d' = map ?upd ?kept"
    using res by (auto simp: clean_up_eq Let_def split: if_splits)
  have at: "attributes d' = filter (\<lambda>a. a_uuid a \<notin> set uuids) (attributes d)"
    using res by (auto simp: clean_up_eq Let_def split: if_splits)
  have op: "options d' = filter (\<lambda>x. o_uuid x \<notin> set uuids) (options d)"
    using res by (auto simp: clean_up_eq Let_def split: if_splits)
  have uu: "map n_uuid (map ?upd ?kept) = map n_uuid ?kept"
    by (simp add: time_out_row_def)
  have dist: "distinct (map n_uuid (nodes d'))"
    unfolding nd uu using pk by (simp add: distinct_map_filter)
  have kept_row: "select_node (n_uuid r) d' = Some (?upd r)"
    if "r \<in> set (nodes d)" "\<not> ?exp r" for r
  proof -
    have "?upd r \<in> set (nodes d')" using that unfolding nd by simp
    moreover have "n_uuid (?upd r) = n_uuid r" by (simp add: time_out_row_def)
    ultimately show ?thesis
      using find_unique[OF dist, of "?upd r"] by (simp add: select_node_def)
  qed
  have gone: "select_node (n_uuid r) d' = None" if "r \<in> set (nodes d)" "?exp r" for r
  proof -
    have "\<forall>x \<in> set (nodes d'). n_uuid x \<noteq> n_uuid r"
    proof
      fix x assume "x \<in> set (nodes d')"
      then obtain y where y: "y \<in> set (nodes d)" "\<not> ?exp y" "x = ?upd y"
        unfolding nd by auto
      then have "n_uuid x = n_uuid y" by (simp add: time_out_row_def)
      moreover have "y \<noteq> r" using y that by auto
      ultimately show "n_uuid x \<noteq> n_uuid r"
        using distinct_uuid_eq[OF pk y(1) that(1)] by auto
    qed
    then show ?thesis unfolding select_node_def by (rule find_absent)
  qed
  have a: "\<forall>r \<in> set (nodes d). ?exp r \<longrightarrow> select_node (n_uuid r) d' = None"
    using gone by blast
  have b: "0 < timeout conf \<longrightarrow>
            uuids = map n_uuid (filter ?to (nodes d)) \<and>
            (\<forall>r \<in> set (nodes d). ?to r \<longrightarrow>
               select_node (n_uuid r) d' =
                 Some (r\<lparr>n_finished_at := Some now3,
                         n_error := Some (Literal ''Introspection timeout'')\<rparr>) \<and>
               n_uuid r \<in> set uuids \<and>
               (\<forall>a \<in> set (attributes d'). a_uuid a \<noteq> n_uuid r) \<and>
               (\<forall>x \<in> set (options d'). o_uuid x \<noteq> n_uuid r))"
  proof (intro impI conjI ballI)
    assume pos: "0 < timeout conf"
    then show "uuids = map n_uuid (filter ?to (nodes d))" using us by simp
    fix r assume r: "r \<in> set (nodes d)" "?to r"
    then have "\<not> ?exp r" by (simp add: timed_out_not_expired)
    from kept_row[OF r(1) this] pos r(2)
    show "select_node (n_uuid r) d' =
                 Some (r\<lparr>n_finished_at := Some now3,
                         n_error := Some (Literal ''Introspection timeout'')\<rparr>)"
      by (simp add: time_out_row_def)
    show in_us: "n_uuid r \<in> set uuids" using us pos r by auto
    { fix a assume "a \<in> set (attributes d')"
      then show "a_uuid a \<noteq> n_uuid r" using in_us unfolding at by auto }
    { fix x assume "x \<in> set (options d')"
      then show "o_uuid x \<noteq> n_uuid r" using in_us unfolding op by auto }
  qed
  have c: "timeout conf \<le> 0 \<longrightarrow>
            uuids = [] \<and> attributes d' = attributes d \<and> options d' = options d"
    using us at op by simp
  have f: "\<forall>r \<in> set (nodes d).
            \<not> ?exp r \<and> \<not> (0 < timeout conf \<and> ?to r) \<longrightarrow> select_node (n_uuid r) d' = Some r"
    using kept_row by auto
  from a b c f at op show ?thesis by blast
qed

theorem clean_up_sweep_witness:
  "clean_up example_conf 100 100 101 example_db = ([''n1''], swept_db) \<and>
   select_node ''n3'' swept_db = None \<and>
   select_node ''n1'' swept_db =
     Some \<lparr>n_uuid = ''n1'', n_started_at = 10, n_finished_at = Some 101,
           n_error = Some (Literal ''Introspection timeout'')\<rparr> \<and>
   select_node ''n2'' swept_db =
     Some \<lparr>n_uuid = ''n2'', n_started_at = 90, n_finished_at = None, n_error = None\<rparr> \<and>
   attributes swept_db = [\<lparr>a_name = ''mac'', a_value = ''bb'', a_uuid = ''n2''\<rparr>] \<and>
   options swept_db = []"
  using clean_up_sweep [of example_db example_conf 100 100 101 "[''n1'']" swept_db]
  by (simp add: ex_clean) (simp add: swept_db_def select_node_def)

text \<open>
  Claim C9. A second \<open>clean_up\<close> right after a first one returns the empty list:
  this holds for all clock readings of the second run between which and the first run
  no node on introspection has crossed the timeout threshold (in particular when the
  clock has not advanced). With distinct node uuids, whatever the clock readings, no
  uuid is returned by both runs. \<open>clean_up\<close> has no failing branch.
\<close>

theorem clean_up_twice:
  "((\<forall>r \<in> set (nodes d). n_finished_at r = None \<longrightarrow>
        \<not> (now2 - timeout conf \<le> n_started_at r \<and> n_started_at r < now2' - timeout conf)) \<longrightarrow>
      fst (clean_up conf now1' now2' now3' (snd (clean_up conf now1 now2 now3 d))) = []) \<and>
   (distinct (map n_uuid (nodes d)) \<longrightarrow>
      set (fst (clean_up conf now1' now2' now3' (snd (clean_up conf now1 now2 now3 d)))) \<inter>
      set (fst (clean_up conf now1 now2 now3 d)) = {})"
proof (intro conjI impI)
  assume "\<forall>r \<in> set (nodes d). n_finished_at r = None \<longrightarrow>
        \<not> (now2 - timeout conf \<le> n_started_at r \<and> n_started_at r < now2' - timeout conf)"
  then show "fst (clean_up conf now1' now2' now3' (snd (clean_up conf now1 now2 now3 d))) = []"
    by (auto simp: clean_up_eq Let_def filter_empty_conv timed_out_def time_out_row_def)
next
  assume pk: "distinct (map n_uuid (nodes d))"
  show "set (fst (clean_up conf now1' now2' now3' (snd (clean_up conf now1 now2 now3 d)))) \<inter>
      set (fst (clean_up conf now1 now2 now3 d)) = {}"
  proof -
    let ?d1 = "snd (clean_up conf now1 now2 now3 d)"
    { fix u
      assume u2: "u \<in> set (fst (clean_up conf now1' now2' now3' ?d1))"
         and u1: "u \<in> set (fst (clean_up conf now1 now2 now3 d))"
      from u1 have pos: "0 < timeout conf"
        by (auto simp: clean_up_fst split: if_splits)
      from u1 obtain r where r: "r \<in> set (nodes d)" "timed_out (now2 - timeout conf) r" "n_uuid r = u"
        by (auto simp: clean_up_fst split: if_splits)
      from u2 obtain x where x: "x \<in> set (nodes ?d1)" "timed_out (now2' - timeout conf) x" "n_uuid x = u"
        by (auto simp: clean_up_fst split: if_splits)
      from x(1) obtain y where y: "y \<in> set (nodes d)"
          "x = (if 0 < timeout conf \<and> timed_out (now2 - timeout conf) y then time_out_row now3 y else y)"
        unfolding clean_up_nodes by auto
      have "n_uuid y = u" using y(2) x(3) by (simp add: time_out_row_def split: if_splits)
      with r have "y = r" using distinct_uuid_eq[OF pk y(1) r(1)] by simp
      with y(2) pos r(2) have "x = time_out_row now3 r" by simp
      with x(2) have False by (simp add: timed_out_def time_out_row_def) }
    then show ?thesis by blast
  qed
qed

theorem clean_up_twice_witness:
  "fst (clean_up example_conf 100 100 101 example_db) = [''n1''] \<and>
   fst (clean_up example_conf 102 103 104
          (snd (clean_up example_conf 100 100 101 example_db))) = []"
  using clean_up_twice [of example_db 100 example_conf 103 102 104 100 101]
  by (simp add: ex_clean) (simp add: example_db_def example_conf_def)

text \<open>
  Claim C2. When one of the values passed to \<open>add_attribute\<close> is already in the
  attributes table under that name, for whatever node, the call raises the error
  carrying the name and the values passed, and the database is the one before the call:
  the rows inserted before the failing one are rolled back. Every failure of the call
  is of this kind and leaves the database unchanged.
\<close>

theorem add_attribute_duplicate:
  "((\<exists>v \<in> set (as_list v0). \<exists>r \<in> set (attributes d). a_name r = name \<and> a_value r = v) \<longrightarrow>
      add_attribute self name v0 False d = (Inl (AlreadyOnIntrospection name (as_list v0)), d)) \<and>
   (\<forall>e. fst (add_attribute self name v0 False d) = Inl e \<longrightarrow>
      e = AlreadyOnIntrospection name (as_list v0) \<and> snd (add_attribute self name v0 False d) = d)"
proof (intro conjI impI allI)
  assume "\<exists>v \<in> set (as_list v0). \<exists>r \<in> set (attributes d). a_name r = name \<and> a_value r = v"
  then have "\<exists>v \<in> set (as_list v0). (name, v) \<in> set (map attr_key (attributes d))"
    by (force simp: attr_key_def)
  then show "add_attribute self name v0 False d = (Inl (AlreadyOnIntrospection name (as_list v0)), d)"
    by (rule add_attribute_dup)
next
  fix e assume "fst (add_attribute self name v0 False d) = Inl e"
  then show "e = AlreadyOnIntrospection name (as_list v0)"
    by (auto simp: add_attribute_def maybe_db_def with_db_def Let_def split: prod.splits bool.splits)
next
  fix e assume "fst (add_attribute self name v0 False d) = Inl e"
  then show "snd (add_attribute self name v0 False d) = d"
    by (auto simp: add_attribute_def maybe_db_def with_db_def Let_def split: prod.splits bool.splits)
qed

theorem add_attribute_duplicate_witness:
  "add_attribute (NodeInfo ''n2'' 90) ''mac'' (Multi [''cc'', ''aa'']) False example_db =
     (Inl (AlreadyOnIntrospection ''mac'' [''cc'', ''aa'']), example_db) \<and>
   attributes (snd (add_attribute (NodeInfo ''n2'' 90) ''mac'' (Multi [''cc'', ''aa'']) True example_db)) =
     attributes example_db @ [\<lparr>a_name = ''mac'', a_value = ''cc'', a_uuid = ''n2''\<rparr>]"
proof -
  have dup: "\<exists>v \<in> set (as_list (Multi [''cc'', ''aa''])).
               \<exists>r \<in> set (attributes example_db). a_name r = ''mac'' \<and> a_value r = v"
    by (simp add: example_db_def)
  have "add_attribute (NodeInfo ''n2'' 90) ''mac'' (Multi [''cc'', ''aa'']) False example_db =
     (Inl (AlreadyOnIntrospection ''mac'' (as_list (Multi [''cc'', ''aa'']))), example_db)"
    using add_attribute_duplicate [THEN conjunct1, rule_format, OF dup] .
  moreover have "attributes (snd (add_attribute (NodeInfo ''n2'' 90) ''mac'' (Multi [''cc'', ''aa'']) True example_db)) =
     attributes example_db @ [\<lparr>a_name = ''mac'', a_value = ''cc'', a_uuid = ''n2''\<rparr>]"
    by (simp add: add_attribute_def maybe_db_def insert_attribute_def NodeInfo_def example_db_def)
  ultimately show ?thesis by simp
qed

subsection \<open>Finishing a node\<close>

lemma find_map_uuid:
  "(\<And>x. f (g x) = f x) \<Longrightarrow> find (\<lambda>r. f r = u) (map g xs) = map_option g (find (\<lambda>r. f r = u) xs)"
  by (induction xs) auto

text \<open>
  Claim C6, as amended. \<open>finished\<close> has no failing branch, and a node it is called
  on is never left on introspection: each of its rows has \<open>finished_at\<close> set
  afterwards, and its attributes and options are gone. It is not a no-op on a node that
  is finished already: it overwrites \<open>finished_at\<close> with the time of the call and
  \<open>error\<close> with the error of the call. The rows of other nodes are unchanged, and
  so is a cache that has no row of the node.
\<close>

theorem finished_overwrites:
  "finished self err now d = (self', d') \<Longrightarrow>
     select_node (uuid self) d' =
       map_option (\<lambda>r. r\<lparr>n_finished_at := Some now, n_error := err\<rparr>) (select_node (uuid self) d) \<and>
     (\<forall>u. u \<noteq> uuid self \<longrightarrow> select_node u d' = select_node u d) \<and>
     (\<forall>r \<in> set (nodes d'). n_uuid r = uuid self \<longrightarrow> n_finished_at r = Some now \<and> n_error r = err) \<and>
     attributes d' = filter (\<lambda>a. a_uuid a \<noteq> uuid self) (attributes d) \<and>
     options d' = filter (\<lambda>x. o_uuid x \<noteq> uuid self) (options d) \<and>
     finished_at self' = Some now \<and> error self' = err"
proof -
  assume res: "finished self err now d = (self', d')"
  let ?g = "\<lambda>r. if n_uuid r = uuid self then r\<lparr>n_finished_at := Some now, n_error := err\<rparr> else r"
  have nd: "nodes d' = map ?g (nodes d)"
    using res by (auto simp: finished_def update_finished_def delete_attributes_def delete_options_def)
  have g: "\<And>x. n_uuid (?g x) = n_uuid x" by simp
  have sel: "select_node u d' = map_option ?g (select_node u d)" for u
    unfolding select_node_def nd using find_map_uuid[of n_uuid ?g u "nodes d"] by simp
  have 1: "select_node (uuid self) d' =
       map_option (\<lambda>r. r\<lparr>n_finished_at := Some now, n_error := err\<rparr>) (select_node (uuid self) d)"
    unfolding sel by (cases "select_node (uuid self) d") (auto simp: select_node_def dest: find_Some_iff[THEN iffD1])
  have 2: "\<forall>u. u \<noteq> uuid self \<longrightarrow> select_node u d' = select_node u d"
  proof (intro allI impI)
    fix u assume "u \<noteq> uuid self"
    then show "select_node u d' = select_node u d"
      unfolding sel by (cases "select_node u d") (auto simp: select_node_def dest: find_Some_iff[THEN iffD1])
  qed
  have 3: "\<forall>r \<in> set (nodes d'). n_uuid r = uuid self \<longrightarrow> n_finished_at r = Some now \<and> n_error r = err"
    unfolding nd by auto
  have 4: "attributes d' = filter (\<lambda>a. a_uuid a \<noteq> uuid self) (attributes d)"
      "options d' = filter (\<lambda>x. o_uuid x \<noteq> uuid self) (options d)"
      "finished_at self' = Some now" "error self' = err"
    using res by (auto simp: finished_def update_finished_def delete_attributes_def delete_options_def)
  from 1 2 3 4 show ?thesis by blast
qed

theorem finished_overwrites_witness:
  "select_node ''n1'' (snd (finished (NodeInfo ''n1'' 10) (Some (Literal ''boom'')) 120 swept_db)) =
     Some \<lparr>n_uuid = ''n1'', n_started_at = 10, n_finished_at = Some 120,
           n_error = Some (Literal ''boom'')\<rparr> \<and>
   select_node ''n2'' (snd (finished (NodeInfo ''n1'' 10) (Some (Literal ''boom'')) 120 swept_db)) =
     select_node ''n2'' swept_db"
  using finished_overwrites [of "NodeInfo ''n1'' 10" "Some (Literal ''boom'')" 120 swept_db
      "fst (finished (NodeInfo ''n1'' 10) (Some (Literal ''boom'')) 120 swept_db)"
      "snd (finished (NodeInfo ''n1'' 10) (Some (Literal ''boom'')) 120 swept_db)"]
  by (simp add: NodeInfo_def) (simp add: swept_db_def select_node_def)

text \<open>
  The claim as stated fails: after the sweep has finished node \<open>n1\<close> at 101 with
  the timeout error, a later \<open>finished\<close> without error at 120 replaces both fields.
\<close>

theorem finished_twice_counterexample:
  "select_node ''n1'' (snd (clean_up example_conf 100 100 101 example_db)) =
     Some \<lparr>n_uuid = ''n1'', n_started_at = 10, n_finished_at = Some 101,
           n_error = Some (Literal ''Introspection timeout'')\<rparr> \<and>
   select_node ''n1''
     (snd (finished (NodeInfo ''n1'' 10) None 120
            (snd (clean_up example_conf 100 100 101 example_db)))) =
     Some \<lparr>n_uuid = ''n1'', n_started_at = 10, n_finished_at = Some 120, n_error = None\<rparr>"
  by (simp add: ex_clean)
     (simp add: swept_db_def select_node_def finished_def update_finished_def
        delete_attributes_def delete_options_def NodeInfo_def)

subsection \<open>Looking a node up\<close>

lemma set_select_uuids: "set (select_uuids name vs d) = matching_uuids name vs d"
  by (simp add: select_uuids_def matching_uuids_def)

lemma find_loop_set: "set (find_loop attrs found d) = set found \<union> candidate_ids attrs d"
proof (induction attrs found d rule: find_loop.induct)
  case (1 found d)
  then show ?case by (simp add: candidate_ids_def)
next
  case (2 name rest found d)
  then show ?case by (simp add: candidate_ids_def)
next
  case (3 name v rest found d)
  show ?case
  proof (cases "truthy (Some v)")
    case False
    with 3 show ?thesis by (simp add: candidate_ids_def)
  next
    case True
    have "set (if select_uuids name (as_list v) d \<noteq> []
               then remdups (found @ select_uuids name (as_list v) d) else found)
          = set found \<union> matching_uuids name (as_list v) d"
      using set_select_uuids[of name "as_list v" d] by auto
    with True 3 show ?thesis
      by (simp add: candidate_ids_def Let_def Un_assoc del: truthy.simps)
  qed
qed

lemma find_loop_distinct: "distinct found \<Longrightarrow> distinct (find_loop attrs found d)"
  by (induction attrs found d rule: find_loop.induct) (auto simp: Let_def)

lemma candidate_ids_sort: "candidate_ids (sort_key fst attrs) d = candidate_ids attrs d"
  by (simp add: candidate_ids_def)

lemma found_list:
  "set (find_loop (sort_key fst attrs) [] d) = candidate_ids attrs d \<and>
   distinct (find_loop (sort_key fst attrs) [] d)"
  by (simp add: find_loop_set find_loop_distinct candidate_ids_sort)

lemma find_node_none:
  "candidate_ids attrs d = {} \<Longrightarrow> find_node attrs d = Inl (NotFoundInCacheError attrs)"
  using found_list[of attrs d] by (simp add: find_node_def)

lemma find_node_many:
  assumes "1 < card (candidate_ids attrs d)"
  shows "\<exists>found. find_node attrs d = Inl (MultipleMatchingNodes attrs found) \<and>
           set found = candidate_ids attrs d \<and> distinct found"
proof -
  let ?xs = "find_loop (sort_key fst attrs) [] d"
  have xs: "set ?xs = candidate_ids attrs d" "distinct ?xs" using found_list by auto
  then have "1 < length ?xs" using assms distinct_card[of ?xs] by simp
  then obtain u v others where "?xs = u # v # others"
    by (cases ?xs; cases "tl ?xs") auto
  with xs show ?thesis by (auto simp: find_node_def)
qed

lemma find_node_one:
  assumes "candidate_ids attrs d = {u}"
  shows "find_node attrs d =
     (case select_node u d of
        None \<Rightarrow> Inl (NotInIntrospectionCache u)
      | Some row \<Rightarrow>
          (case n_finished_at row of
             None \<Rightarrow> Inr (NodeInfo u (n_started_at row))
           | Some f \<Rightarrow> if f \<noteq> 0 then Inl (AlreadyFinished u f)
                       else Inr (NodeInfo u (n_started_at row))))"
proof -
  let ?xs = "find_loop (sort_key fst attrs) [] d"
  have xs: "set ?xs = {u}" "distinct ?xs" using found_list assms by auto
  then have "length ?xs = 1" using distinct_card[of ?xs] by simp
  then obtain x where "?xs = [x]" by (cases ?xs) auto
  with xs have "?xs = [u]" by simp
  then show ?thesis by (simp add: find_node_def)
qed

lemma ex_candidates_one:
  "candidate_ids [(''mac'', Some (Multi [''aa'', ''zz''])), (''bmc_address'', Some (Single ''1.2.3.4''))]
     example_db = {''n1''}"
  by (simp add: candidate_ids_def matching_uuids_def example_db_def)

lemma ex_candidates_two:
  "candidate_ids [(''mac'', Some (Multi [''aa'', ''bb'']))] example_db = {''n1'', ''n2''}"
  by (simp add: candidate_ids_def matching_uuids_def example_db_def)

lemma ex_candidates_none:
  "candidate_ids [(''mac'', Some (Single ''zz'')), (''bmc_address'', None)] example_db = {}"
  by (simp add: candidate_ids_def matching_uuids_def example_db_def)

lemma ex_find_two:
  "find_node [(''mac'', Some (Multi [''aa'', ''bb'']))] example_db =
     Inl (MultipleMatchingNodes [(''mac'', Some (Multi [''aa'', ''bb'']))] [''n1'', ''n2''])"
  by (simp add: find_node_def select_uuids_def example_db_def)

lemma ex_orphan:
  "snd (clean_up example_conf 100 100 101
     (snd (add_attribute (NodeInfo ''n1'' 10) ''mac'' (Single ''aa'') False
       (snd (finished (NodeInfo ''n1'' 10) None 20
         (snd (add_node ''n1'' [] 10 empty_db))))))) = orphan_db"
  by (simp add: add_node_def with_db_def insert_node_def delete_node_def delete_attributes_def
      delete_options_def empty_db_def NodeInfo_def finished_def update_finished_def
      add_attribute_def maybe_db_def insert_attribute_def clean_up_def example_conf_def
      finished_before_def orphan_db_def Let_def)

lemma ex_late:
  "snd (add_attribute (NodeInfo ''n1'' 10) ''mac'' (Single ''aa'') False
       (snd (finished (NodeInfo ''n1'' 10) None 20
         (snd (add_node ''n1'' [] 10 empty_db))))) = late_db"
  by (simp add: add_node_def with_db_def insert_node_def delete_node_def delete_attributes_def
      delete_options_def empty_db_def NodeInfo_def finished_def update_finished_def
      add_attribute_def maybe_db_def insert_attribute_def late_db_def Let_def)

lemma ex_select_n1:
  "select_node ''n1'' example_db =
     Some \<lparr>n_uuid = ''n1'', n_started_at = 10, n_finished_at = None, n_error = None\<rparr>"
  by (simp add: select_node_def example_db_def)

lemma ex_select_late:
  "select_node ''n1'' late_db =
     Some \<lparr>n_uuid = ''n1'', n_started_at = 10, n_finished_at = Some 20, n_error = None\<rparr>"
  by (simp add: select_node_def late_db_def)

lemma ex_candidates_late:
  "candidate_ids [(''mac'', Some (Single ''aa''))] late_db = {''n1''}"
  by (simp add: candidate_ids_def matching_uuids_def late_db_def)

lemma ex_candidates_orphan:
  "candidate_ids [(''mac'', Some (Single ''aa''))] orphan_db = {''n1''}"
  by (simp add: candidate_ids_def matching_uuids_def orphan_db_def)

lemma ex_select_orphan: "select_node ''n1'' orphan_db = None"
  by (simp add: select_node_def orphan_db_def)

text \<open>
  Claim C1, as amended. The uuids that \<open>find_node\<close> finds are the union, over the
  criteria with a non-empty value, of the uuids of the attribute rows that match the
  name and one of the values. With no candidate it raises \<open>NotFoundInCacheError\<close>;
  with more than one it raises the error that lists all of them; with exactly one it
  raises an error (code 404) when the nodes table has no row of that uuid, raises
  "already finished" with the finish time when the row has a non-zero
  \<open>finished_at\<close>, and returns a \<open>NodeInfo\<close> with the row's \<open>started_at\<close> when
  \<open>finished_at\<close> is not set.
\<close>

theorem find_node_outcomes:
  "(candidate_ids attrs d = {} \<longrightarrow> find_node attrs d = Inl (NotFoundInCacheError attrs)) \<and>
   (1 < card (candidate_ids attrs d) \<longrightarrow>
      (\<exists>found. find_node attrs d = Inl (MultipleMatchingNodes attrs found) \<and>
         set found = candidate_ids attrs d \<and> distinct found)) \<and>
   (\<forall>u. candidate_ids attrs d = {u} \<and> select_node u d = None \<longrightarrow>
      find_node attrs d = Inl (NotInIntrospectionCache u)) \<and>
   (\<forall>u row f. candidate_ids attrs d = {u} \<and> select_node u d = Some row \<and>
        n_finished_at row = Some f \<and> f \<noteq> 0 \<longrightarrow>
      find_node attrs d = Inl (AlreadyFinished u f)) \<and>
   (\<forall>u row. candidate_ids attrs d = {u} \<and> select_node u d = Some row \<and>
        n_finished_at row = None \<longrightarrow>
      find_node attrs d = Inr (NodeInfo u (n_started_at row)))"
  using find_node_none[of attrs d] find_node_many[of attrs d]
  by (auto simp: find_node_one)

theorem find_node_outcomes_witness:
  "find_node [(''mac'', Some (Multi [''aa'', ''zz''])), (''bmc_address'', Some (Single ''1.2.3.4''))]
     example_db = Inr (NodeInfo ''n1'' 10) \<and>
   find_node [(''mac'', Some (Single ''zz'')), (''bmc_address'', None)] example_db =
     Inl (NotFoundInCacheError [(''mac'', Some (Single ''zz'')), (''bmc_address'', None)]) \<and>
   (\<exists>found. find_node [(''mac'', Some (Multi [''aa'', ''bb'']))] example_db =
        Inl (MultipleMatchingNodes [(''mac'', Some (Multi [''aa'', ''bb'']))] found) \<and>
      set found = {''n1'', ''n2''}) \<and>
   find_node [(''mac'', Some (Single ''aa''))] late_db = Inl (AlreadyFinished ''n1'' 20) \<and>
   find_node [(''mac'', Some (Single ''aa''))] orphan_db = Inl (NotInIntrospectionCache ''n1'')"
proof -
  have 1: "find_node [(''mac'', Some (Multi [''aa'', ''zz''])), (''bmc_address'', Some (Single ''1.2.3.4''))]
     example_db = Inr (NodeInfo ''n1'' 10)"
    using find_node_outcomes [of "[(''mac'', Some (Multi [''aa'', ''zz''])),
        (''bmc_address'', Some (Single ''1.2.3.4''))]" example_db]
    by (simp add: ex_candidates_one ex_select_n1)
  have 2: "find_node [(''mac'', Some (Single ''zz'')), (''bmc_address'', None)] example_db =
     Inl (NotFoundInCacheError [(''mac'', Some (Single ''zz'')), (''bmc_address'', None)])"
    using find_node_outcomes [of "[(''mac'', Some (Single ''zz'')), (''bmc_address'', None)]" example_db]
    by (simp add: ex_candidates_none)
  have 3: "\<exists>found. find_node [(''mac'', Some (Multi [''aa'', ''bb'']))] example_db =
        Inl (MultipleMatchingNodes [(''mac'', Some (Multi [''aa'', ''bb'']))] found) \<and>
      set found = {''n1'', ''n2''}"
    using find_node_outcomes [of "[(''mac'', Some (Multi [''aa'', ''bb'']))]" example_db]
    by (simp add: ex_candidates_two) blast
  have 4: "find_node [(''mac'', Some (Single ''aa''))] late_db = Inl (AlreadyFinished ''n1'' 20)"
    using find_node_outcomes [of "[(''mac'', Some (Single ''aa''))]" late_db]
    by (simp add: ex_candidates_late ex_select_late)
  have 5: "find_node [(''mac'', Some (Single ''aa''))] orphan_db = Inl (NotInIntrospectionCache ''n1'')"
    using find_node_outcomes [of "[(''mac'', Some (Single ''aa''))]" orphan_db]
    by (simp add: ex_candidates_orphan ex_select_orphan)
  from 1 2 3 4 5 show ?thesis by blast
qed

text \<open>
  The claim as stated fails where the only candidate has no row: node \<open>n1\<close> is
  added, finished, given an attribute afterwards, and its row is dropped by the sweep.
  The candidate set is \<open>{n1}\<close>, no \<open>finished_at\<close> is set, and the lookup raises
  instead of returning a handle.
\<close>

theorem find_node_orphan_counterexample:
  "snd (clean_up example_conf 100 100 101
     (snd (add_attribute (NodeInfo ''n1'' 10) ''mac'' (Single ''aa'') False
       (snd (finished (NodeInfo ''n1'' 10) None 20
         (snd (add_node ''n1'' [] 10 empty_db))))))) = orphan_db \<and>
   candidate_ids [(''mac'', Some (Single ''aa''))] orphan_db = {''n1''} \<and>
   select_node ''n1'' orphan_db = None \<and>
   find_node [(''mac'', Some (Single ''aa''))] orphan_db = Inl (NotInIntrospectionCache ''n1'')"
  by (simp add: ex_orphan)
     (simp add: candidate_ids_def matching_uuids_def orphan_db_def select_node_def
        find_node_def select_uuids_def)

subsection \<open>Adding a node\<close>

lemma insertable_append:
  "insertable (rs @ rs') d \<longleftrightarrow>
     insertable rs d \<and> insertable rs' (d\<lparr>attributes := attributes d @ rs\<rparr>)"
  by (auto simp: insertable_def)

lemma insertable_Nil: "insertable [] d"
  by (simp add: insertable_def)

lemma add_attribute_own_connection:
  "add_attribute self name v True d =
     (let rs = map (\<lambda>x. \<lparr>a_name = name, a_value = x, a_uuid = uuid self\<rparr>) (as_list v)
      in if insertable rs d then (Inr (), d\<lparr>attributes := attributes d @ rs\<rparr>)
         else (Inl (AlreadyOnIntrospection name (as_list v)), snd (executemany_insert rs d)))"
proof -
  let ?rs = "map (\<lambda>x. \<lparr>a_name = name, a_value = x, a_uuid = uuid self\<rparr>) (as_list v)"
  obtain b d1 where run: "executemany_insert ?rs d = (b, d1)"
    by (cases "executemany_insert ?rs d")
  have ok: "b = insertable ?rs d"
    using executemany_insert_ok[of ?rs d] run by (simp add: insertable_def)
  have res: "b \<Longrightarrow> d1 = d\<lparr>attributes := attributes d @ ?rs\<rparr>"
    using executemany_insert_result[of ?rs d] run by simp
  have "add_attribute self name v True d =
          (if b then (Inr (), d1) else (Inl (AlreadyOnIntrospection name (as_list v)), d1))"
    unfolding add_attribute_def maybe_db_def Let_def if_True run by simp
  with ok res run show ?thesis unfolding Let_def by (cases b) simp_all
qed

lemma initial_rows_Cons:
  "initial_rows u ((name, value) # rest) =
     (case value of
        None \<Rightarrow> []
      | Some v \<Rightarrow> if truthy (Some v)
                  then map (\<lambda>x. \<lparr>a_name = name, a_value = x, a_uuid = u\<rparr>) (as_list v)
                  else []) @ initial_rows u rest"
  by (simp add: initial_rows_def)

lemma add_attributes_ok:
  "insertable (initial_rows (uuid self) attrs) d \<Longrightarrow>
     add_attributes self attrs d =
       (Inr (), d\<lparr>attributes := attributes d @ initial_rows (uuid self) attrs\<rparr>)"
proof (induction attrs arbitrary: d)
  case Nil
  then show ?case by (simp add: initial_rows_def)
next
  case (Cons a attrs)
  obtain name val where a: "a = (name, val)" by (cases a)
  show ?case
  proof (cases val)
    case None
    with Cons a show ?thesis by (simp add: initial_rows_Cons)
  next
    case (Some v)
    show ?thesis
    proof (cases "truthy (Some v)")
      case False
      with Cons a Some show ?thesis by (simp add: initial_rows_Cons del: truthy.simps)
    next
      case True
      let ?rs = "map (\<lambda>x. \<lparr>a_name = name, a_value = x, a_uuid = uuid self\<rparr>) (as_list v)"
      have split: "initial_rows (uuid self) (a # attrs) = ?rs @ initial_rows (uuid self) attrs"
        using True a Some by (simp add: initial_rows_Cons del: truthy.simps)
      from Cons.prems have i1: "insertable ?rs d"
        and i2: "insertable (initial_rows (uuid self) attrs) (d\<lparr>attributes := attributes d @ ?rs\<rparr>)"
        unfolding split insertable_append by auto
      have step: "add_attribute self name v True d = (Inr (), d\<lparr>attributes := attributes d @ ?rs\<rparr>)"
        using i1 by (simp add: add_attribute_own_connection Let_def)
      have "add_attributes self (a # attrs) d =
              add_attributes self attrs (d\<lparr>attributes := attributes d @ ?rs\<rparr>)"
        unfolding a Some using True step by (simp del: truthy.simps)
      also have "\<dots> = (Inr (), d\<lparr>attributes := attributes d @ ?rs @ initial_rows (uuid self) attrs\<rparr>)"
        using Cons.IH[OF i2] by simp
      finally show ?thesis unfolding split .
    qed
  qed
qed

lemma add_attributes_fails:
  "\<not> insertable (initial_rows (uuid self) attrs) d \<Longrightarrow>
     \<exists>name vs d'. add_attributes self attrs d = (Inl (AlreadyOnIntrospection name vs), d')"
proof (induction attrs arbitrary: d)
  case Nil
  then show ?case by (simp add: initial_rows_def insertable_Nil)
next
  case (Cons a attrs)
  obtain name val where a: "a = (name, val)" by (cases a)
  show ?case
  proof (cases val)
    case None
    with Cons a show ?thesis by (simp add: initial_rows_Cons)
  next
    case (Some v)
    show ?thesis
    proof (cases "truthy (Some v)")
      case False
      with Cons a Some show ?thesis by (simp add: initial_rows_Cons del: truthy.simps)
    next
      case True
      let ?rs = "map (\<lambda>x. \<lparr>a_name = name, a_value = x, a_uuid = uuid self\<rparr>) (as_list v)"
      have split: "initial_rows (uuid self) (a # attrs) = ?rs @ initial_rows (uuid self) attrs"
        using True a Some by (simp add: initial_rows_Cons del: truthy.simps)
      show ?thesis
      proof (cases "insertable ?rs d")
        case False
        then have "add_attribute self name v True d =
            (Inl (AlreadyOnIntrospection name (as_list v)), snd (executemany_insert ?rs d))"
          by (simp add: add_attribute_own_connection Let_def)
        then have "add_attributes self (a # attrs) d =
            (Inl (AlreadyOnIntrospection name (as_list v)), snd (executemany_insert ?rs d))"
          unfolding a Some using True by (simp del: truthy.simps)
        then show ?thesis by blast
      next
        case i1: True
        then have step: "add_attribute self name v True d = (Inr (), d\<lparr>attributes := attributes d @ ?rs\<rparr>)"
          by (simp add: add_attribute_own_connection Let_def)
        have eq: "add_attributes self (a # attrs) d =
              add_attributes self attrs (d\<lparr>attributes := attributes d @ ?rs\<rparr>)"
          unfolding a Some using True step by (simp del: truthy.simps)
        from Cons.prems i1
        have "\<not> insertable (initial_rows (uuid self) attrs) (d\<lparr>attributes := attributes d @ ?rs\<rparr>)"
          unfolding split insertable_append by simp
        from Cons.IH[OF this] show ?thesis unfolding eq .
      qed
    qed
  qed
qed

lemma initial_rows_uuid: "x \<in> set (initial_rows u attrs) \<Longrightarrow> a_uuid x = u"
  by (auto simp: initial_rows_def split: option.splits if_splits)

lemma find_after_delete:
  "find (\<lambda>r. f r = u) (filter (\<lambda>r. f r \<noteq> u) xs @ [y]) = (if f y = u then Some y else None)"
  by (induction xs) auto

lemma insertable_attributes:
  "attributes d = attributes d' \<Longrightarrow> insertable rs d = insertable rs d'"
  by (simp add: insertable_def)

lemma add_node_ok:
  assumes "insertable (initial_rows u attrs) (delete_attributes u d)"
  shows "add_node u attrs now d =
     (Inr (NodeInfo u now),
      \<lparr>nodes = filter (\<lambda>r. n_uuid r \<noteq> u) (nodes d) @
                [\<lparr>n_uuid = u, n_started_at = now, n_finished_at = None, n_error = None\<rparr>],
       attributes = filter (\<lambda>r. a_uuid r \<noteq> u) (attributes d) @ initial_rows u attrs,
       options = filter (\<lambda>r. o_uuid r \<noteq> u) (options d)\<rparr>)"
proof -
  let ?fresh = "\<lparr>n_uuid = u, n_started_at = now, n_finished_at = None, n_error = None\<rparr>"
  let ?d1 = "delete_options u (delete_attributes u (delete_node u d))"
  let ?d2 = "?d1\<lparr>nodes := nodes ?d1 @ [?fresh]\<rparr>"
  have ins: "insert_node ?fresh ?d1 = Some ?d2"
    by (auto simp: insert_node_def delete_options_def delete_attributes_def delete_node_def)
  have "insertable (initial_rows (uuid (NodeInfo u now)) attrs) ?d2"
    using assms
    by (simp add: insertable_def NodeInfo_def delete_options_def delete_attributes_def delete_node_def)
  from add_attributes_ok[OF this]
  have "add_attributes (NodeInfo u now) attrs ?d2 =
          (Inr (), ?d2\<lparr>attributes := attributes ?d2 @ initial_rows u attrs\<rparr>)"
    by (simp add: NodeInfo_def)
  with ins show ?thesis
    by (simp add: add_node_def with_db_def Let_def delete_options_def delete_attributes_def
        delete_node_def)
qed

lemma add_node_fails:
  assumes "\<not> insertable (initial_rows u attrs) (delete_attributes u d)"
  shows "\<exists>name vs. add_node u attrs now d = (Inl (AlreadyOnIntrospection name vs), d)"
proof -
  let ?fresh = "\<lparr>n_uuid = u, n_started_at = now, n_finished_at = None, n_error = None\<rparr>"
  let ?d1 = "delete_options u (delete_attributes u (delete_node u d))"
  let ?d2 = "?d1\<lparr>nodes := nodes ?d1 @ [?fresh]\<rparr>"
  have ins: "insert_node ?fresh ?d1 = Some ?d2"
    by (auto simp: insert_node_def delete_options_def delete_attributes_def delete_node_def)
  have "\<not> insertable (initial_rows (uuid (NodeInfo u now)) attrs) ?d2"
    using assms
    by (simp add: insertable_def NodeInfo_def delete_options_def delete_attributes_def delete_node_def)
  from add_attributes_fails[OF this]
  obtain name vs d' where "add_attributes (NodeInfo u now) attrs ?d2 =
      (Inl (AlreadyOnIntrospection name vs), d')" by blast
  with ins have "add_node u attrs now d = (Inl (AlreadyOnIntrospection name vs), d)"
    by (simp add: add_node_def with_db_def Let_def)
  then show ?thesis by blast
qed

lemma lookup_after_replace:
  assumes pk: "distinct (map attr_key (attributes d))"
      and r: "r \<in> set (attributes d)" "a_uuid r = u"
      and d': "attributes d' = filter (\<lambda>r. a_uuid r \<noteq> u) (attributes d) @ initial_rows u attrs"
  shows "candidate_ids [(a_name r, Some (Multi [a_value r]))] d' =
           (if attr_key r \<in> set (map attr_key (initial_rows u attrs)) then {u} else {})"
proof -
  have old: "x \<in> set (attributes d) \<Longrightarrow> a_name x = a_name r \<Longrightarrow> a_value x = a_value r \<Longrightarrow> a_uuid x = u" for x
    using distinct_uuid_eq[OF pk _ r(1), of x] r(2) by (simp add: attr_key_def)
  have "candidate_ids [(a_name r, Some (Multi [a_value r]))] d' =
          a_uuid ` {x \<in> set (attributes d'). a_name x = a_name r \<and> a_value x = a_value r}"
    by (simp add: candidate_ids_def matching_uuids_def)
  also have "{x \<in> set (attributes d'). a_name x = a_name r \<and> a_value x = a_value r} =
       {x \<in> set (initial_rows u attrs). attr_key x = attr_key r}"
    unfolding d' using old by (auto simp: attr_key_def)
  also have "a_uuid ` \<dots> = (if attr_key r \<in> set (map attr_key (initial_rows u attrs)) then {u} else {})"
    using initial_rows_uuid[of _ u attrs] by (auto simp: image_iff)
  finally show ?thesis .
qed

text \<open>
  Claim C5. \<open>add_node\<close> either commits all of its writes or none. When the initial
  attribute rows are insertable once the rows of the uuid are deleted, it returns the
  new \<open>NodeInfo\<close> and the cache is the old one without the node, attribute and
  option rows of the uuid, with a fresh node row (\<open>started_at = now\<close>, no
  \<open>finished_at\<close>, no \<open>error\<close>) and with one attribute row per value of each
  non-empty initial attribute. In that cache, when attribute keys were unique before,
  the lookup of an attribute value of the old node raises \<open>NotFoundInCacheError\<close>
  unless the new node has the same value, in which case it finds the new node. When
  the rows are not insertable the call raises and the cache is unchanged.
\<close>

theorem add_node_replaces:
  "(insertable (initial_rows u attrs) (delete_attributes u d) \<longrightarrow>
      (\<exists>d'. add_node u attrs now d = (Inr (NodeInfo u now), d') \<and>
         nodes d' = filter (\<lambda>r. n_uuid r \<noteq> u) (nodes d) @
                      [\<lparr>n_uuid = u, n_started_at = now, n_finished_at = None, n_error = None\<rparr>] \<and>
         attributes d' = filter (\<lambda>r. a_uuid r \<noteq> u) (attributes d) @ initial_rows u attrs \<and>
         options d' = filter (\<lambda>r. o_uuid r \<noteq> u) (options d) \<and>
         select_node u d' =
           Some \<lparr>n_uuid = u, n_started_at = now, n_finished_at = None, n_error = None\<rparr> \<and>
         (distinct (map attr_key (attributes d)) \<longrightarrow>
            (\<forall>r \<in> set (attributes d). a_uuid r = u \<longrightarrow>
               find_node [(a_name r, Some (Multi [a_value r]))] d' =
                 (if attr_key r \<in> set (map attr_key (initial_rows u attrs))
                  then Inr (NodeInfo u now)
                  else Inl (NotFoundInCacheError [(a_name r, Some (Multi [a_value r]))])))))) \<and>
   (\<not> insertable (initial_rows u attrs) (delete_attributes u d) \<longrightarrow>
      (\<exists>name vs. add_node u attrs now d = (Inl (AlreadyOnIntrospection name vs), d)))"
proof (intro conjI impI)
  assume ok: "insertable (initial_rows u attrs) (delete_attributes u d)"
  let ?fresh = "\<lparr>n_uuid = u, n_started_at = now, n_finished_at = None, n_error = None\<rparr>"
  let ?d' = "\<lparr>nodes = filter (\<lambda>r. n_uuid r \<noteq> u) (nodes d) @ [?fresh],
       attributes = filter (\<lambda>r. a_uuid r \<noteq> u) (attributes d) @ initial_rows u attrs,
       options = filter (\<lambda>r. o_uuid r \<noteq> u) (options d)\<rparr>"
  have sel: "select_node u ?d' = Some ?fresh"
    using find_after_delete[of n_uuid u "nodes d" ?fresh] by (simp add: select_node_def)
  have look: "find_node [(a_name r, Some (Multi [a_value r]))] ?d' =
                 (if attr_key r \<in> set (map attr_key (initial_rows u attrs))
                  then Inr (NodeInfo u now)
                  else Inl (NotFoundInCacheError [(a_name r, Some (Multi [a_value r]))]))"
    if pk: "distinct (map attr_key (attributes d))" and r: "r \<in> set (attributes d)" "a_uuid r = u" for r
  proof -
    have c: "candidate_ids [(a_name r, Some (Multi [a_value r]))] ?d' =
           (if attr_key r \<in> set (map attr_key (initial_rows u attrs)) then {u} else {})"
      by (rule lookup_after_replace[OF pk r]) simp
    show ?thesis
    proof (cases "attr_key r \<in> set (map attr_key (initial_rows u attrs))")
      case True
      with c have "candidate_ids [(a_name r, Some (Multi [a_value r]))] ?d' = {u}" by simp
      from find_node_one[OF this] sel True show ?thesis by simp
    next
      case False
      with c have "candidate_ids [(a_name r, Some (Multi [a_value r]))] ?d' = {}" by simp
      from find_node_none[OF this] False show ?thesis by simp
    qed
  qed
  show "\<exists>d'. add_node u attrs now d = (Inr (NodeInfo u now), d') \<and>
         nodes d' = filter (\<lambda>r. n_uuid r \<noteq> u) (nodes d) @ [?fresh] \<and>
         attributes d' = filter (\<lambda>r. a_uuid r \<noteq> u) (attributes d) @ initial_rows u attrs \<and>
         options d' = filter (\<lambda>r. o_uuid r \<noteq> u) (options d) \<and>
         select_node u d' = Some ?fresh \<and>
         (distinct (map attr_key (attributes d)) \<longrightarrow>
            (\<forall>r \<in> set (attributes d). a_uuid r = u \<longrightarrow>
               find_node [(a_name r, Some (Multi [a_value r]))] d' =
                 (if attr_key r \<in> set (map attr_key (initial_rows u attrs))
                  then Inr (NodeInfo u now)
                  else Inl (NotFoundInCacheError [(a_name r, Some (Multi [a_value r]))]))))"
    apply (rule exI[of _ ?d'])
    apply (intro conjI impI ballI)
    apply (rule add_node_ok[OF ok])
    apply simp
    apply simp
    apply simp
    apply (rule sel)
    apply (rule look, assumption+)
    done
next
  assume "\<not> insertable (initial_rows u attrs) (delete_attributes u d)"
  then show "\<exists>name vs. add_node u attrs now d = (Inl (AlreadyOnIntrospection name vs), d)"
    by (rule add_node_fails)
qed

lemma ex_insertable_bmc:
  "insertable (initial_rows ''n1'' [(''bmc_address'', Some (Single ''10.0.0.1'')), (''mac'', None)])
     (delete_attributes ''n1'' example_db)"
  by (simp add: insertable_def initial_rows_def delete_attributes_def example_db_def attr_key_def)

lemma ex_not_insertable:
  "\<not> insertable (initial_rows ''n1'' [(''mac'', Some (Single ''bb''))])
     (delete_attributes ''n1'' example_db)"
  by (simp add: insertable_def initial_rows_def delete_attributes_def example_db_def attr_key_def)

theorem add_node_replaces_witness:
  "fst (add_node ''n1'' [(''bmc_address'', Some (Single ''10.0.0.1'')), (''mac'', None)] 200 example_db) =
     Inr (NodeInfo ''n1'' 200) \<and>
   find_node [(''mac'', Some (Multi [''aa'']))]
     (snd (add_node ''n1'' [(''bmc_address'', Some (Single ''10.0.0.1'')), (''mac'', None)] 200 example_db)) =
     Inl (NotFoundInCacheError [(''mac'', Some (Multi [''aa'']))]) \<and>
   select_node ''n1''
     (snd (add_node ''n1'' [(''bmc_address'', Some (Single ''10.0.0.1'')), (''mac'', None)] 200 example_db)) =
     Some \<lparr>n_uuid = ''n1'', n_started_at = 200, n_finished_at = None, n_error = None\<rparr> \<and>
   snd (add_node ''n1'' [(''mac'', Some (Single ''bb''))] 200 example_db) = example_db"
proof -
  let ?attrs = "[(''bmc_address'', Some (Single ''10.0.0.1'')), (''mac'', None)]"
  let ?r = "\<lparr>a_name = ''mac'', a_value = ''aa'', a_uuid = ''n1''\<rparr>"
  note T = add_node_replaces [of "''n1''" ?attrs example_db 200]
  from T ex_insertable_bmc obtain d' where
      an: "add_node ''n1'' ?attrs 200 example_db = (Inr (NodeInfo ''n1'' 200), d')"
    and sel: "select_node ''n1'' d' =
         Some \<lparr>n_uuid = ''n1'', n_started_at = 200, n_finished_at = None, n_error = None\<rparr>"
    and look: "distinct (map attr_key (attributes example_db)) \<longrightarrow>
            (\<forall>r \<in> set (attributes example_db). a_uuid r = ''n1'' \<longrightarrow>
               find_node [(a_name r, Some (Multi [a_value r]))] d' =
                 (if attr_key r \<in> set (map attr_key (initial_rows ''n1'' ?attrs))
                  then Inr (NodeInfo ''n1'' 200)
                  else Inl (NotFoundInCacheError [(a_name r, Some (Multi [a_value r]))])))"
    by blast
  have pk: "distinct (map attr_key (attributes example_db))"
    by (simp add: example_db_def attr_key_def)
  have r: "?r \<in> set (attributes example_db)" by (simp add: example_db_def)
  have "attr_key ?r \<notin> set (map attr_key (initial_rows ''n1'' ?attrs))"
    by (simp add: initial_rows_def attr_key_def)
  with look pk r have f: "find_node [(''mac'', Some (Multi [''aa'']))] d' =
      Inl (NotFoundInCacheError [(''mac'', Some (Multi [''aa'']))])"
    by fastforce
  from add_node_replaces [of "''n1''" "[(''mac'', Some (Single ''bb''))]" example_db 200] ex_not_insertable
  have "snd (add_node ''n1'' [(''mac'', Some (Single ''bb''))] 200 example_db) = example_db"
    by auto
  with an sel f show ?thesis by simp
qed

section \<open>Properties of the introspection request\<close>

lemma options_of_uuid: "uuid (snd (options_of self d)) = uuid self"
  by (simp add: options_of_def Let_def split: option.splits)

lemma ports_uuid: "ports ironic self = (r, self') \<Longrightarrow> uuid self' = uuid self"
  by (auto simp: ports_def Let_def split: option.splits sum.splits)

lemma add_attribute_frame:
  "nodes (snd (add_attribute self name v database d)) = nodes d \<and>
   options (snd (add_attribute self name v database d)) = options d"
  using executemany_insert_others[of "map (\<lambda>x. \<lparr>a_name = name, a_value = x, a_uuid = uuid self\<rparr>) (as_list v)" d]
  by (auto simp: add_attribute_def maybe_db_def with_db_def Let_def split: prod.splits bool.splits)

lemma whitelist_macs_frame:
  "whitelist_macs ironic self macs d = (r, lg, d1) \<Longrightarrow> nodes d1 = nodes d \<and> options d1 = options d"
  using add_attribute_frame[of self MACS_ATTRIBUTE "Multi macs" False d]
  by (auto simp: whitelist_macs_def Let_def split: if_splits prod.splits sum.splits option.splits)

lemma power_on_uuid: "power_on conf ironic self d = (r, self', lg) \<Longrightarrow> uuid self' = uuid self"
  using options_of_uuid[of self d]
  by (auto simp: power_on_def Let_def split: prod.splits if_splits option.splits)

lemma background_introspect_frame:
  assumes "background_introspect conf ironic node_info d = (r, self, lg, d1)"
  shows "nodes d1 = nodes d \<and> options d1 = options d \<and> uuid self = uuid node_info"
proof -
  obtain pr s0 where p: "ports ironic node_info = (pr, s0)" by (cases "ports ironic node_info")
  then have u0: "uuid s0 = uuid node_info" by (rule ports_uuid)
  show ?thesis
  proof (cases pr)
    case (Inl e)
    with assms p u0 show ?thesis by (simp add: background_introspect_def)
  next
    case (Inr macs)
    obtain wr wl wd where w: "whitelist_macs ironic s0 macs d = (wr, wl, wd)"
      by (cases "whitelist_macs ironic s0 macs d")
    then have fr: "nodes wd = nodes d \<and> options wd = options d" by (rule whitelist_macs_frame)
    show ?thesis
    proof (cases wr)
      case (Inl e)
      with assms p Inr w u0 fr show ?thesis by (simp add: background_introspect_def)
    next
      case (Inr x)
      obtain r2 s2 l2 where po: "power_on conf ironic s0 wd = (r2, s2, l2)"
        by (cases "power_on conf ironic s0 wd")
      then have "uuid s2 = uuid s0" by (rule power_on_uuid)
      with assms p \<open>pr = Inr macs\<close> w Inr po u0 fr show ?thesis
        by (simp add: background_introspect_def)
    qed
  qed
qed

lemma finished_nodes:
  "select_node u (snd (finished self err now d)) =
     (if u = uuid self
      then map_option (\<lambda>r. r\<lparr>n_finished_at := Some now, n_error := err\<rparr>) (select_node u d)
      else select_node u d)"
proof -
  let ?g = "\<lambda>r. if n_uuid r = uuid self then r\<lparr>n_finished_at := Some now, n_error := err\<rparr> else r"
  have nd: "nodes (snd (finished self err now d)) = map ?g (nodes d)"
    by (simp add: finished_def update_finished_def delete_attributes_def delete_options_def)
  have sel: "select_node u (snd (finished self err now d)) = map_option ?g (select_node u d)"
    unfolding select_node_def nd using find_map_uuid[of n_uuid ?g u "nodes d"] by simp
  show ?thesis
    unfolding sel by (cases "select_node u d") (auto simp: select_node_def dest: find_Some_iff[THEN iffD1])
qed

lemma select_node_cong: "nodes d = nodes d' \<Longrightarrow> select_node u d = select_node u d'"
  by (simp add: select_node_def)

text \<open>
  Claim C3. No exception leaves \<open>_handle_exceptions\<close>. When
  \<open>_background_introspect\<close> returns, the row of the node is as it was; when it
  raises, the row has \<open>finished_at\<close> set to the time of the call and \<open>error\<close>
  set to the text of the exception (of a \<open>utils.Error\<close>) or to the fixed message
  (of any other exception). The rows of other nodes are unchanged.
\<close>

theorem handle_exceptions_records:
  assumes "handle_exceptions conf ironic node_info now d = (raised, self, lg, d')"
  shows "raised = None \<and>
     select_node (uuid node_info) d' =
       (case fst (background_introspect conf ironic node_info d) of
          Inr ok \<Rightarrow> select_node (uuid node_info) d
        | Inl exc \<Rightarrow>
            map_option (\<lambda>r. r\<lparr>n_finished_at := Some now, n_error := Some (error_text exc)\<rparr>)
              (select_node (uuid node_info) d)) \<and>
     (\<forall>u. u \<noteq> uuid node_info \<longrightarrow> select_node u d' = select_node u d)"
proof -
  obtain r s1 l1 d1 where bg: "background_introspect conf ironic node_info d = (r, s1, l1, d1)"
    by (cases "background_introspect conf ironic node_info d") auto
  from background_introspect_frame[OF bg]
  have fr: "nodes d1 = nodes d" "uuid s1 = uuid node_info" by auto
  have same: "select_node u d1 = select_node u d" for u
    using fr(1) by (rule select_node_cong)
  show ?thesis
  proof (cases r)
    case (Inr x)
    with assms bg have "raised = None" "d' = d1" by (auto simp: handle_exceptions_def)
    with Inr bg same show ?thesis by simp
  next
    case (Inl exc)
    with assms bg have rn: "raised = None"
      and d': "d' = snd (finished s1 (Some (error_text exc)) now d1)"
      by (auto simp: handle_exceptions_def error_text_def Let_def split: if_splits prod.splits)
    show ?thesis
      unfolding d' using rn Inl bg fr(2) same by (simp add: finished_nodes)
  qed
qed

lemma ex_task_fails:
  "fst (background_introspect example_conf
          (example_ironic\<lparr>set_power_state := Some (OtherException ''no route'')\<rparr>)
          (NodeInfo ''n2'' 90) example_db) =
     Inl (FailedPowerOn ''n2'' (OtherException ''no route''))"
  by (simp add: background_introspect_def ports_def NodeInfo_def example_ironic_def
      whitelist_macs_def add_attribute_def maybe_db_def with_db_def insert_attribute_def
      MACS_ATTRIBUTE_def example_db_def power_on_def options_of_def select_options_def Let_def)

lemma ex_task_ports_fail:
  "fst (background_introspect example_conf
          (example_ironic\<lparr>list_ports := Inl (ClientHttpError ''500'')\<rparr>)
          (NodeInfo ''n2'' 90) example_db) = Inl (ClientHttpError ''500'')"
  by (simp add: background_introspect_def ports_def NodeInfo_def example_ironic_def)

lemma ex_task_ok:
  "fst (background_introspect example_conf example_ironic (NodeInfo ''n2'' 90) example_db) = Inr ()"
  by (simp add: background_introspect_def ports_def NodeInfo_def example_ironic_def
      whitelist_macs_def add_attribute_def maybe_db_def with_db_def insert_attribute_def
      MACS_ATTRIBUTE_def example_db_def power_on_def options_of_def select_options_def Let_def)

lemma ex_select_n2:
  "select_node ''n2'' example_db =
     Some \<lparr>n_uuid = ''n2'', n_started_at = 90, n_finished_at = None, n_error = None\<rparr>"
  by (simp add: select_node_def example_db_def)

lemma ex_uuid_n2: "uuid (NodeInfo ''n2'' 90) = ''n2''"
  by (simp add: NodeInfo_def)

theorem handle_exceptions_records_witness:
  "select_node ''n2''
     (snd (snd (snd (handle_exceptions example_conf
        (example_ironic\<lparr>set_power_state := Some (OtherException ''no route'')\<rparr>)
        (NodeInfo ''n2'' 90) 95 example_db)))) =
     Some \<lparr>n_uuid = ''n2'', n_started_at = 90, n_finished_at = Some 95,
           n_error = Some (Str (FailedPowerOn ''n2'' (OtherException ''no route'')))\<rparr> \<and>
   select_node ''n2''
     (snd (snd (snd (handle_exceptions example_conf
        (example_ironic\<lparr>list_ports := Inl (ClientHttpError ''500'')\<rparr>)
        (NodeInfo ''n2'' 90) 95 example_db)))) =
     Some \<lparr>n_uuid = ''n2'', n_started_at = 90, n_finished_at = Some 95,
           n_error = Some (Literal ''Unexpected exception in background introspection thread'')\<rparr> \<and>
   select_node ''n2''
     (snd (snd (snd (handle_exceptions example_conf example_ironic
        (NodeInfo ''n2'' 90) 95 example_db)))) =
     Some \<lparr>n_uuid = ''n2'', n_started_at = 90, n_finished_at = None, n_error = None\<rparr> \<and>
   fst (handle_exceptions example_conf
        (example_ironic\<lparr>list_ports := Inl (ClientHttpError ''500'')\<rparr>)
        (NodeInfo ''n2'' 90) 95 example_db) = None"
proof -
  have T: "fst (handle_exceptions conf ironic node_info now d) = None \<and>
     select_node (uuid node_info) (snd (snd (snd (handle_exceptions conf ironic node_info now d)))) =
       (case fst (background_introspect conf ironic node_info d) of
          Inr ok \<Rightarrow> select_node (uuid node_info) d
        | Inl exc \<Rightarrow>
            map_option (\<lambda>r. r\<lparr>n_finished_at := Some now, n_error := Some (error_text exc)\<rparr>)
              (select_node (uuid node_info) d))" for conf ironic node_info now d
    using handle_exceptions_records [of conf ironic node_info now d
        "fst (handle_exceptions conf ironic node_info now d)"
        "fst (snd (handle_exceptions conf ironic node_info now d))"
        "fst (snd (snd (handle_exceptions conf ironic node_info now d)))"
        "snd (snd (snd (handle_exceptions conf ironic node_info now d)))"]
    by simp
  show ?thesis
    using T [of example_conf "example_ironic\<lparr>set_power_state := Some (OtherException ''no route'')\<rparr>"
              "NodeInfo ''n2'' 90" 95 example_db]
          T [of example_conf "example_ironic\<lparr>list_ports := Inl (ClientHttpError ''500'')\<rparr>"
              "NodeInfo ''n2'' 90" 95 example_db]
          T [of example_conf example_ironic "NodeInfo ''n2'' 90" 95 example_db]
    by (simp add: ex_task_fails ex_task_ports_fail ex_task_ok ex_select_n2 ex_uuid_n2 error_text_def)
qed

text \<open>
  Claim C7. Let the ports be listed and whitelisted without failure and the node have
  no new credentials among its options. A failure to set the boot device is logged as a
  warning and the task goes on to the reboot: it ends without exception, with the cache
  as it is after a successful call, and the nodes and options tables untouched. A
  failure of the reboot makes \<open>_background_introspect\<close> raise the power-on error,
  which \<open>_handle_exceptions\<close> records as the error of the finished node.
\<close>

theorem power_on_failures:
  assumes p: "ports ironic node_info = (Inr macs, self)"
      and w: "whitelist_macs ironic self macs d = (Inr (), lg0, d1)"
      and nc: "\<not> truthy_json (map_of (fst (options_of self d1)) ''new_ipmi_credentials'')"
  shows "(\<forall>e. set_boot_device ironic = Some e \<and> set_power_state ironic = None \<longrightarrow>
            handle_exceptions conf ironic node_info now d =
              (None, snd (options_of self d1),
               lg0 @ [(WARNING, FailedToSetBootDevice (uuid node_info) e),
                      (INFO, IntrospectionStarted (uuid node_info))], d1)) \<and>
         (set_boot_device ironic = None \<and> set_power_state ironic = None \<longrightarrow>
            handle_exceptions conf ironic node_info now d =
              (None, snd (options_of self d1),
               lg0 @ [(INFO, IntrospectionStarted (uuid node_info))], d1)) \<and>
         nodes d1 = nodes d \<and> options d1 = options d \<and>
         (\<forall>e. set_power_state ironic = Some e \<longrightarrow>
            fst (background_introspect conf ironic node_info d) =
              Inl (FailedPowerOn (uuid node_info) e) \<and>
            fst (handle_exceptions conf ironic node_info now d) = None \<and>
            select_node (uuid node_info) (snd (snd (snd (handle_exceptions conf ironic node_info now d)))) =
              map_option (\<lambda>r. r\<lparr>n_finished_at := Some now,
                                 n_error := Some (Str (FailedPowerOn (uuid node_info) e))\<rparr>)
                (select_node (uuid node_info) d))"
proof -
  from p have u: "uuid self = uuid node_info" by (rule ports_uuid)
  obtain opts s2 where o: "options_of self d1 = (opts, s2)" by (cases "options_of self d1")
  with nc have nc': "\<not> truthy_json (map_of opts ''new_ipmi_credentials'')" by simp
  have u2: "uuid s2 = uuid node_info" using options_of_uuid[of self d1] o u by simp
  from w have fr: "nodes d1 = nodes d" "options d1 = options d"
    using whitelist_macs_frame by blast+
  have 1: "handle_exceptions conf ironic node_info now d =
              (None, snd (options_of self d1),
               lg0 @ [(WARNING, FailedToSetBootDevice (uuid node_info) e),
                      (INFO, IntrospectionStarted (uuid node_info))], d1)"
    if "set_boot_device ironic = Some e \<and> set_power_state ironic = None" for e
    using that p w o nc' u2
    by (simp add: handle_exceptions_def background_introspect_def power_on_def)
  have 2: "set_boot_device ironic = None \<and> set_power_state ironic = None \<longrightarrow>
            handle_exceptions conf ironic node_info now d =
              (None, snd (options_of self d1),
               lg0 @ [(INFO, IntrospectionStarted (uuid node_info))], d1)"
    using p w o nc' u2
    by (simp add: handle_exceptions_def background_introspect_def power_on_def)
  have 3: "fst (background_introspect conf ironic node_info d) =
              Inl (FailedPowerOn (uuid node_info) e) \<and>
            fst (handle_exceptions conf ironic node_info now d) = None \<and>
            select_node (uuid node_info) (snd (snd (snd (handle_exceptions conf ironic node_info now d)))) =
              map_option (\<lambda>r. r\<lparr>n_finished_at := Some now,
                                 n_error := Some (Str (FailedPowerOn (uuid node_info) e))\<rparr>)
                (select_node (uuid node_info) d)"
    if e: "set_power_state ironic = Some e" for e
  proof -
    have bg: "background_introspect conf ironic node_info d =
        (Inl (FailedPowerOn (uuid node_info) e), s2,
         lg0 @ (case set_boot_device ironic of
                  Some x \<Rightarrow> [(WARNING, FailedToSetBootDevice (uuid node_info) x)] | None \<Rightarrow> []), d1)"
      using e p w o nc' by (simp add: background_introspect_def power_on_def u2 split: option.splits)
    then have he: "handle_exceptions conf ironic node_info now d =
        (None, fst (finished s2 (Some (Str (FailedPowerOn (uuid node_info) e))) now d1),
         lg0 @ (case set_boot_device ironic of
                  Some x \<Rightarrow> [(WARNING, FailedToSetBootDevice (uuid node_info) x)] | None \<Rightarrow> []),
         snd (finished s2 (Some (Str (FailedPowerOn (uuid node_info) e))) now d1))"
      by (simp add: handle_exceptions_def split: prod.splits)
    have "select_node (uuid node_info) d1 = select_node (uuid node_info) d"
      using fr(1) by (rule select_node_cong)
    with bg he u2 show ?thesis by (simp add: finished_nodes)
  qed
  from 1 2 3 fr show ?thesis by blast
qed

lemma ex_ports:
  "ports (example_ironic\<lparr>set_boot_device := b, set_power_state := p\<rparr>) (NodeInfo ''n2'' 90) =
     (Inr [''cc''], (NodeInfo ''n2'' 90)\<lparr>ports_cache := Some [''cc'']\<rparr>)"
  by (simp add: ports_def NodeInfo_def example_ironic_def Let_def)

lemma ex_whitelist:
  "whitelist_macs (example_ironic\<lparr>set_boot_device := b, set_power_state := p\<rparr>)
     ((NodeInfo ''n2'' 90)\<lparr>ports_cache := Some [''cc'']\<rparr>) [''cc''] example_db =
     (Inr (), [(INFO, WhitelistingMacs [''cc''] ''n2'')],
      example_db\<lparr>attributes := attributes example_db @
         [\<lparr>a_name = ''mac'', a_value = ''cc'', a_uuid = ''n2''\<rparr>]\<rparr>)"
  by (simp add: whitelist_macs_def add_attribute_def maybe_db_def with_db_def insert_attribute_def
      MACS_ATTRIBUTE_def example_db_def NodeInfo_def example_ironic_def)

lemma ex_no_credentials:
  "\<not> truthy_json (map_of (fst (options_of ((NodeInfo ''n2'' 90)\<lparr>ports_cache := Some [''cc'']\<rparr>)
        (example_db\<lparr>attributes := attributes example_db @
           [\<lparr>a_name = ''mac'', a_value = ''cc'', a_uuid = ''n2''\<rparr>]\<rparr>))) ''new_ipmi_credentials'')"
  by (simp add: options_of_def select_options_def NodeInfo_def example_db_def Let_def)

theorem power_on_failures_witness:
  "fst (snd (snd (handle_exceptions example_conf
       (example_ironic\<lparr>set_boot_device := Some (OtherException ''busy''), set_power_state := None\<rparr>)
       (NodeInfo ''n2'' 90) 95 example_db))) =
     [(INFO, WhitelistingMacs [''cc''] ''n2''),
      (WARNING, FailedToSetBootDevice ''n2'' (OtherException ''busy'')),
      (INFO, IntrospectionStarted ''n2'')] \<and>
   snd (snd (snd (handle_exceptions example_conf
       (example_ironic\<lparr>set_boot_device := Some (OtherException ''busy''), set_power_state := None\<rparr>)
       (NodeInfo ''n2'' 90) 95 example_db))) =
     snd (snd (snd (handle_exceptions example_conf
       (example_ironic\<lparr>set_boot_device := None, set_power_state := None\<rparr>)
       (NodeInfo ''n2'' 90) 95 example_db))) \<and>
   select_node ''n2'' (snd (snd (snd (handle_exceptions example_conf
       (example_ironic\<lparr>set_boot_device := None, set_power_state := Some (OtherException ''no route'')\<rparr>)
       (NodeInfo ''n2'' 90) 95 example_db)))) =
     Some \<lparr>n_uuid = ''n2'', n_started_at = 90, n_finished_at = Some 95,
           n_error = Some (Str (FailedPowerOn ''n2'' (OtherException ''no route'')))\<rparr>"
proof -
  have 1: "fst (snd (snd (handle_exceptions example_conf
       (example_ironic\<lparr>set_boot_device := Some (OtherException ''busy''), set_power_state := None\<rparr>)
       (NodeInfo ''n2'' 90) 95 example_db))) =
     [(INFO, WhitelistingMacs [''cc''] ''n2''),
      (WARNING, FailedToSetBootDevice ''n2'' (OtherException ''busy'')),
      (INFO, IntrospectionStarted ''n2'')]"
    and db1: "snd (snd (snd (handle_exceptions example_conf
       (example_ironic\<lparr>set_boot_device := Some (OtherException ''busy''), set_power_state := None\<rparr>)
       (NodeInfo ''n2'' 90) 95 example_db))) = example_db\<lparr>attributes := attributes example_db @
         [\<lparr>a_name = ''mac'', a_value = ''cc'', a_uuid = ''n2''\<rparr>]\<rparr>"
    using power_on_failures [where conf = example_conf and now = 95,
        OF ex_ports [where b = "Some (OtherException ''busy'')" and p = None] ex_whitelist [where b = "Some (OtherException ''busy'')" and p = None] ex_no_credentials]
    by (simp_all add: ex_uuid_n2)
  have 2: "snd (snd (snd (handle_exceptions example_conf
       (example_ironic\<lparr>set_boot_device := None, set_power_state := None\<rparr>)
       (NodeInfo ''n2'' 90) 95 example_db))) = example_db\<lparr>attributes := attributes example_db @
         [\<lparr>a_name = ''mac'', a_value = ''cc'', a_uuid = ''n2''\<rparr>]\<rparr>"
    using power_on_failures [where conf = example_conf and now = 95,
        OF ex_ports [where b = None and p = None] ex_whitelist [where b = None and p = None] ex_no_credentials]
    by (simp add: ex_uuid_n2)
  have 3: "select_node ''n2'' (snd (snd (snd (handle_exceptions example_conf
       (example_ironic\<lparr>set_boot_device := None, set_power_state := Some (OtherException ''no route'')\<rparr>)
       (NodeInfo ''n2'' 90) 95 example_db)))) =
     Some \<lparr>n_uuid = ''n2'', n_started_at = 90, n_finished_at = Some 95,
           n_error = Some (Str (FailedPowerOn ''n2'' (OtherException ''no route'')))\<rparr>"
    using power_on_failures [where conf = example_conf and now = 95,
        OF ex_ports [where b = None and p = "Some (OtherException ''no route'')"] ex_whitelist [where b = None and p = "Some (OtherException ''no route'')"] ex_no_credentials]
    by (simp add: ex_uuid_n2 ex_select_n2)
  from 1 db1 2 3 show ?thesis by simp
qed

lemma wrong_chars_empty:
  "remdups (filter (\<lambda>c. c \<notin> A) p) = [] \<longleftrightarrow> set p \<subseteq> A"
  by (auto simp: filter_empty_conv)

lemma validate_rejects:
  "\<not> (enable_setting_ipmi_credentials conf \<and> maintenance node \<and> acceptable_password password) \<Longrightarrow>
     \<exists>e. validate_ipmi_credentials conf node (name, password) = Inl e \<and> isinstance_Error e"
  unfolding validate_ipmi_credentials_def acceptable_password_def Let_def PASSWORD_MAX_LENGTH_def
    wrong_chars_empty prod.case
  by (auto split: option.splits)

lemma validate_accepts:
  "enable_setting_ipmi_credentials conf \<Longrightarrow> maintenance node \<Longrightarrow> acceptable_password password \<Longrightarrow>
   (if provided name then name else ipmi_username node) = Some n \<Longrightarrow> n \<noteq> [] \<Longrightarrow>
     validate_ipmi_credentials conf node (name, password) = Inr (n, password)"
  unfolding validate_ipmi_credentials_def acceptable_password_def Let_def PASSWORD_MAX_LENGTH_def
    wrong_chars_empty prod.case
  by (cases name) (auto split: option.splits if_splits)

lemma introspect_rejects:
  assumes "\<exists>e. validate_ipmi_credentials conf node creds = Inl e"
      and "node_get ironic = Inr node"
  shows "\<exists>e. introspect conf ironic u (Some creds) now d = (Inl e, d)"
  using assms
  by (auto simp: introspect_def check_credentials_def split: option.splits sum.splits)

lemma introspect_no_node:
  assumes "node_get ironic = Inl x"
  shows "\<exists>e. introspect conf ironic u c now d = (Inl e, d)"
  using assms
  by (auto simp: introspect_def split: option.splits sum.splits)

lemma abc123: "acceptable_password ''abc123''"
  by (simp add: acceptable_password_def PASSWORD_ACCEPTED_CHARS_def)

lemma abc_def: "\<not> acceptable_password ''abc def!''"
  by (simp add: acceptable_password_def PASSWORD_ACCEPTED_CHARS_def)

text \<open>
  Claim C8. Unless setting credentials is enabled, the node is in maintenance mode and
  the password is made of letters and digits and has 1 to 20 characters,
  \<open>_validate_ipmi_credentials\<close> raises a \<open>utils.Error\<close>, and \<open>introspect\<close>
  called with these credentials raises and leaves the cache as it was. When the three
  conditions hold and a user name is given or known to the node, the credentials are
  accepted. The password "abc def!" is rejected; "abc123" is accepted.
\<close>

theorem validate_ipmi_credentials_checks:
  "(\<not> (enable_setting_ipmi_credentials conf \<and> maintenance node \<and> acceptable_password password) \<longrightarrow>
      (\<exists>e. validate_ipmi_credentials conf node (name, password) = Inl e \<and> isinstance_Error e) \<and>
      (node_get ironic = Inr node \<longrightarrow>
         (\<exists>e. introspect conf ironic u (Some (name, password)) now d = (Inl e, d)))) \<and>
   (enable_setting_ipmi_credentials conf \<and> maintenance node \<and> acceptable_password password \<and>
    (if provided name then name else ipmi_username node) = Some n \<and> n \<noteq> [] \<longrightarrow>
      validate_ipmi_credentials conf node (name, password) = Inr (n, password)) \<and>
   (\<exists>e. validate_ipmi_credentials conf node (name, ''abc def!'') = Inl e \<and> isinstance_Error e) \<and>
   (enable_setting_ipmi_credentials conf \<and> maintenance node \<and>
    (if provided name then name else ipmi_username node) = Some n \<and> n \<noteq> [] \<longrightarrow>
      validate_ipmi_credentials conf node (name, ''abc123'') = Inr (n, ''abc123''))"
proof (intro conjI impI)
  assume a: "\<not> (enable_setting_ipmi_credentials conf \<and> maintenance node \<and> acceptable_password password)"
  then show "\<exists>e. validate_ipmi_credentials conf node (name, password) = Inl e \<and> isinstance_Error e"
    by (rule validate_rejects)
  then have v: "\<exists>e. validate_ipmi_credentials conf node (name, password) = Inl e" by blast
  assume "node_get ironic = Inr node"
  with v show "\<exists>e. introspect conf ironic u (Some (name, password)) now d = (Inl e, d)"
    by (rule introspect_rejects)
next
  assume "enable_setting_ipmi_credentials conf \<and> maintenance node \<and> acceptable_password password \<and>
    (if provided name then name else ipmi_username node) = Some n \<and> n \<noteq> []"
  then show "validate_ipmi_credentials conf node (name, password) = Inr (n, password)"
    using validate_accepts by blast
next
  show "\<exists>e. validate_ipmi_credentials conf node (name, ''abc def!'') = Inl e \<and> isinstance_Error e"
    using abc_def by (intro validate_rejects) blast
next
  assume "enable_setting_ipmi_credentials conf \<and> maintenance node \<and>
    (if provided name then name else ipmi_username node) = Some n \<and> n \<noteq> []"
  then show "validate_ipmi_credentials conf node (name, ''abc123'') = Inr (n, ''abc123'')"
    using validate_accepts abc123 by blast
qed

lemma ex_conf_node:
  "enable_setting_ipmi_credentials example_conf \<and> maintenance example_node"
  by (simp add: example_conf_def example_node_def)

theorem validate_ipmi_credentials_checks_witness:
  "validate_ipmi_credentials example_conf example_node (None, ''abc123'') = Inr (''admin'', ''abc123'') \<and>
   validate_ipmi_credentials example_conf example_node (Some ''root'', ''abc123'') = Inr (''root'', ''abc123'') \<and>
   validate_ipmi_credentials example_conf example_node (Some ''root'', ''abc def!'') =
     Inl (ForbiddenCharacters ''n2'' '' !'') \<and>
   (\<exists>e. introspect example_conf example_ironic ''n2'' (Some (Some ''root'', ''abc def!'')) 200 example_db =
      (Inl e, example_db)) \<and>
   (\<exists>e. validate_ipmi_credentials (example_conf\<lparr>enable_setting_ipmi_credentials := False\<rparr>)
          example_node (Some ''root'', ''abc123'') = Inl e)"
proof -
  have 1: "validate_ipmi_credentials example_conf example_node (None, ''abc123'') = Inr (''admin'', ''abc123'')"
    using validate_ipmi_credentials_checks [of example_conf example_node "''abc123''" None
        example_ironic "''n2''" 200 example_db "''admin''"] ex_conf_node
    by (simp add: example_node_def)
  have 2: "validate_ipmi_credentials example_conf example_node (Some ''root'', ''abc123'') = Inr (''root'', ''abc123'')"
    using validate_ipmi_credentials_checks [of example_conf example_node "''abc123''" "Some ''root''"
        example_ironic "''n2''" 200 example_db "''root''"] ex_conf_node
    by simp
  have bad: "\<not> acceptable_password ''abc def!''"
    by (simp add: acceptable_password_def PASSWORD_ACCEPTED_CHARS_def)
  have ng: "node_get example_ironic = Inr example_node"
    by (simp add: example_ironic_def example_node_def)
  have 3: "\<exists>e. introspect example_conf example_ironic ''n2'' (Some (Some ''root'', ''abc def!'')) 200 example_db =
      (Inl e, example_db)"
    using validate_ipmi_credentials_checks [of example_conf example_node "''abc def!''" "Some ''root''"
        example_ironic "''n2''" 200 example_db "''root''"] bad ng
    by blast
  have 4: "\<exists>e. validate_ipmi_credentials (example_conf\<lparr>enable_setting_ipmi_credentials := False\<rparr>)
          example_node (Some ''root'', ''abc123'') = Inl e"
    using validate_ipmi_credentials_checks [of "example_conf\<lparr>enable_setting_ipmi_credentials := False\<rparr>"
        example_node "''abc123''" "Some ''root''" example_ironic "''n2''" 200 example_db "''root''"]
    by auto
  have 5: "validate_ipmi_credentials example_conf example_node (Some ''root'', ''abc def!'') =
     Inl (ForbiddenCharacters ''n2'' '' !'')"
    by (simp add: validate_ipmi_credentials_def example_conf_def example_node_def
        PASSWORD_ACCEPTED_CHARS_def)
  from 1 2 3 4 5 show ?thesis by blast
qed

lemma set_option_fresh:
  assumes "\<forall>r \<in> set (options d1). o_uuid r \<noteq> u"
  shows "set_option (NodeInfo u now) name v d1 =
     (Inr ((NodeInfo u now)\<lparr>options_cache := Some [(name, v)]\<rparr>),
      d1\<lparr>options := options d1 @ [\<lparr>o_uuid = u, o_name = name, o_value = v\<rparr>]\<rparr>)"
proof -
  have none: "filter (\<lambda>r. o_uuid r = u) (options d1) = []"
    using assms by (simp add: filter_empty_conv)
  have uu: "uuid (NodeInfo u now) = u" by (simp add: NodeInfo_def)
  have opts: "options_of (NodeInfo u now) d1 = ([], (NodeInfo u now)\<lparr>options_cache := Some []\<rparr>)"
    by (simp add: options_of_def NodeInfo_def select_options_def none Let_def)
  have eq: "d1\<lparr>options := filter (\<lambda>r. \<not> (o_uuid r = u \<and> o_name r = name)) (options d1)\<rparr> = d1"
    using assms by (simp add: filter_id_conv)
  have ins: "insert_option \<lparr>o_uuid = u, o_name = name, o_value = v\<rparr> d1 =
      Some (d1\<lparr>options := options d1 @ [\<lparr>o_uuid = u, o_name = name, o_value = v\<rparr>]\<rparr>)"
    using assms by (auto simp: insert_option_def)
  show ?thesis
    unfolding set_option_def opts Let_def prod.case uu eq with_db_def ins
    by (simp add: NodeInfo_def)
qed

lemma add_node_result:
  assumes "add_node u attrs now d = (Inr node_info, d1)"
  shows "node_info = NodeInfo u now \<and> options d1 = filter (\<lambda>r. o_uuid r \<noteq> u) (options d) \<and>
         insertable (initial_rows u attrs) (delete_attributes u d)"
proof (cases "insertable (initial_rows u attrs) (delete_attributes u d)")
  case True
  from add_node_ok[OF True, of now] assms show ?thesis using True by auto
next
  case False
  from add_node_fails[OF False, of now] assms show ?thesis by auto
qed

lemma credentials_json_cases:
  "check_credentials conf ironic node creds = Inr c \<Longrightarrow>
     (creds = None \<longrightarrow> credentials_json c = JNull) \<and>
     (\<forall>name password. creds = Some (name, password) \<longrightarrow>
        (\<exists>n. credentials_json c = JArray [JString n, JString password]))"
  by (auto simp: check_credentials_def validate_ipmi_credentials_def Let_def
      split: option.splits sum.splits if_splits prod.splits)

text \<open>
  Claim C10. When \<open>introspect\<close> returns a \<open>NodeInfo\<close>, the options of its node
  in the cache are exactly the option \<open>new_ipmi_credentials\<close>, which a fresh
  handle reads and the returned handle has cached; its value is null when no
  credentials were given and the pair of user name and password otherwise.
  \<open>introspect\<close> does return when the checks before \<open>add_node\<close> pass and the BMC
  address is not taken by another node.
\<close>

theorem introspect_sets_option:
  "(\<forall>node_info d'. introspect conf ironic u creds now d = (Inr node_info, d') \<longrightarrow>
      (\<exists>v. select_options (uuid node_info) d' = [(''new_ipmi_credentials'', v)] \<and>
           fst (options_of (NodeInfo (uuid node_info) (started_at node_info)) d') =
             [(''new_ipmi_credentials'', v)] \<and>
           options_cache node_info = Some [(''new_ipmi_credentials'', v)] \<and>
           (creds = None \<longrightarrow> v = JNull) \<and>
           (\<forall>name password. creds = Some (name, password) \<longrightarrow>
              (\<exists>n. v = JArray [JString n, JString password])))) \<and>
   (\<forall>node c addr.
      get_client ironic = None \<and> node_get ironic = Inr node \<and>
      check_provision_state ironic = None \<and>
      check_credentials conf ironic node creds = Inr c \<and>
      get_ipmi_address ironic = Inr addr \<and>
      insertable (initial_rows (node_uuid node) [(''bmc_address'', map_option Single addr)])
        (delete_attributes (node_uuid node) d) \<longrightarrow>
      (\<exists>node_info d'. introspect conf ironic u creds now d = (Inr node_info, d') \<and>
         uuid node_info = node_uuid node))"
proof (intro conjI allI impI)
  fix node_info d'
  assume res: "introspect conf ironic u creds now d = (Inr node_info, d')"
  then obtain node c addr ni d1 where
      cc: "check_credentials conf ironic node creds = Inr c"
    and an: "add_node (node_uuid node) [(''bmc_address'', map_option Single addr)] now d = (Inr ni, d1)"
    and so: "set_option ni ''new_ipmi_credentials'' (credentials_json c) d1 = (Inr node_info, d')"
    by (auto simp: introspect_def split: option.splits sum.splits prod.splits)
  let ?u = "node_uuid node"
  from add_node_result[OF an] have ni: "ni = NodeInfo ?u now"
    and od: "options d1 = filter (\<lambda>r. o_uuid r \<noteq> ?u) (options d)" by auto
  then have free: "\<forall>r \<in> set (options d1). o_uuid r \<noteq> ?u" by simp
  from set_option_fresh[OF free, of now "''new_ipmi_credentials''" "credentials_json c"] so ni
  have h: "node_info = (NodeInfo ?u now)\<lparr>options_cache := Some [(''new_ipmi_credentials'', credentials_json c)]\<rparr>"
    and d': "d' = d1\<lparr>options := options d1 @
        [\<lparr>o_uuid = ?u, o_name = ''new_ipmi_credentials'', o_value = credentials_json c\<rparr>]\<rparr>"
    by auto
  have uu: "uuid node_info = ?u" unfolding h by (simp add: NodeInfo_def)
  have none: "filter (\<lambda>r. o_uuid r = ?u) (options d1) = []"
    using free by (simp add: filter_empty_conv)
  have sel: "select_options ?u d' = [(''new_ipmi_credentials'', credentials_json c)]"
    unfolding d' by (simp add: select_options_def none)
  have cache: "options_cache node_info = Some [(''new_ipmi_credentials'', credentials_json c)]"
    unfolding h by (simp add: NodeInfo_def)
  have fresh: "fst (options_of (NodeInfo ?u t) d') = select_options ?u d'" for t
    by (simp add: options_of_def NodeInfo_def Let_def)
  have "select_options (uuid node_info) d' = [(''new_ipmi_credentials'', credentials_json c)] \<and>
        fst (options_of (NodeInfo (uuid node_info) (started_at node_info)) d') =
             [(''new_ipmi_credentials'', credentials_json c)] \<and>
        options_cache node_info = Some [(''new_ipmi_credentials'', credentials_json c)]"
    unfolding uu fresh sel using cache by simp
  with credentials_json_cases[OF cc]
  show "\<exists>v. select_options (uuid node_info) d' = [(''new_ipmi_credentials'', v)] \<and>
           fst (options_of (NodeInfo (uuid node_info) (started_at node_info)) d') =
             [(''new_ipmi_credentials'', v)] \<and>
           options_cache node_info = Some [(''new_ipmi_credentials'', v)] \<and>
           (creds = None \<longrightarrow> v = JNull) \<and>
           (\<forall>name password. creds = Some (name, password) \<longrightarrow>
              (\<exists>n. v = JArray [JString n, JString password]))"
    by blast
next
  fix node c addr
  assume a: "get_client ironic = None \<and> node_get ironic = Inr node \<and>
      check_provision_state ironic = None \<and>
      check_credentials conf ironic node creds = Inr c \<and>
      get_ipmi_address ironic = Inr addr \<and>
      insertable (initial_rows (node_uuid node) [(''bmc_address'', map_option Single addr)])
        (delete_attributes (node_uuid node) d)"
  let ?u = "node_uuid node"
  let ?d1 = "\<lparr>nodes = filter (\<lambda>r. n_uuid r \<noteq> ?u) (nodes d) @
                [\<lparr>n_uuid = ?u, n_started_at = now, n_finished_at = None, n_error = None\<rparr>],
       attributes = filter (\<lambda>r. a_uuid r \<noteq> ?u) (attributes d) @
                initial_rows ?u [(''bmc_address'', map_option Single addr)],
       options = filter (\<lambda>r. o_uuid r \<noteq> ?u) (options d)\<rparr>"
  from a have an: "add_node ?u [(''bmc_address'', map_option Single addr)] now d = (Inr (NodeInfo ?u now), ?d1)"
    using add_node_ok by blast
  have free: "\<forall>r \<in> set (options ?d1). o_uuid r \<noteq> ?u" by simp
  note so = set_option_fresh[OF free, of now "''new_ipmi_credentials''" "credentials_json c"]
  from a an so
  have "introspect conf ironic u creds now d =
     (Inr ((NodeInfo ?u now)\<lparr>options_cache := Some [(''new_ipmi_credentials'', credentials_json c)]\<rparr>),
      ?d1\<lparr>options := options ?d1 @
        [\<lparr>o_uuid = ?u, o_name = ''new_ipmi_credentials'', o_value = credentials_json c\<rparr>]\<rparr>)"
    by (simp add: introspect_def)
  then show "\<exists>node_info d'. introspect conf ironic u creds now d = (Inr node_info, d') \<and>
         uuid node_info = node_uuid node"
    by (simp add: NodeInfo_def)
qed

lemma ex_request:
  "get_client example_ironic = None \<and> node_get example_ironic = Inr example_node \<and>
   check_provision_state example_ironic = None \<and>
   check_credentials example_conf example_ironic example_node None = Inr None \<and>
   get_ipmi_address example_ironic = Inr (Some ''10.0.0.2'') \<and>
   insertable (initial_rows (node_uuid example_node) [(''bmc_address'', map_option Single (Some ''10.0.0.2''))])
     (delete_attributes (node_uuid example_node) example_db)"
  by (simp add: example_ironic_def example_node_def check_credentials_def insertable_def
      initial_rows_def delete_attributes_def example_db_def attr_key_def)

theorem introspect_sets_option_witness:
  "select_options ''n2'' (snd (introspect example_conf example_ironic ''n2'' None 200 example_db)) =
     [(''new_ipmi_credentials'', JNull)]"
proof -
  note T = introspect_sets_option [of example_conf example_ironic "''n2''" None 200 example_db]
  from T ex_request obtain node_info d' where
      r: "introspect example_conf example_ironic ''n2'' None 200 example_db = (Inr node_info, d')"
      and u: "uuid node_info = node_uuid example_node"
    by blast
  with T have "select_options (uuid node_info) d' = [(''new_ipmi_credentials'', JNull)]"
    by blast
  with r u show ?thesis by (simp add: example_node_def)
qed

end
